theory Spec2Isabelle
  imports Complex_Main "HOL-Library.Log_Nat"
begin

section \<open>Data model (models/payroll, models/employee)\<close>

text \<open>
  Where the modelled code stands in the source tree:
  \<^item> \<open>PayrollStatus\<close>, \<open>Payroll\<close>, \<open>PayrollItem\<close>, \<open>PayrollModel\<close>, \<open>PayrollItemModel\<close> (the
    module \<open>models/payroll\<close>): src/jobs/payroll.processor.ts, lines 251 to 490;
  \<^item> \<open>processBulkPayroll\<close> and its \<open>updatePayrollStats\<close>: src/jobs/payroll.processor.ts,
    lines 26 to 105;
  \<^item> \<open>PayrollController.reconcilePayroll\<close> and its \<open>updatePayrollStats\<close>:
    src/controllers/employee.controller.ts, lines 237 to 362; the registration of the
    method as a route: src/routes/payroll.routes.ts, line 467;
  \<^item> the webhook route, \<open>verifySignature\<close> and the route's \<open>updatePayrollStats\<close>:
    src/routes/payroll.routes.ts, lines 470 to 596;
  \<^item> \<open>MonnifyClient\<close>: src/config/monnify.ts; \<open>EmployeeModel.findById\<close>:
    src/models/employee.ts.
\<close>

text \<open>
  The rows of the three tables, with the columns the payroll code reads or writes.
  Two records of the source share column names (\<open>id\<close>, \<open>status\<close>, \<open>processed_at\<close>,
  \<open>updated_at\<close>); the payroll's columns carry the suffix \<open>_p\<close>, the item's \<open>_i\<close>, the
  employee's \<open>_e\<close>. A table is the list of its rows in \<open>created_at\<close> order (the order of
  every \<open>ORDER BY created_at\<close> of the source). Timestamps are natural numbers; each
  operation reads the database clock \<open>NOW()\<close> as its argument \<open>now\<close>. The schema
  declares \<open>id SERIAL PRIMARY KEY\<close> on every table; a property that needs the item
  ids to differ says so with \<open>distinct (map id_i (payroll_items s))\<close>.
\<close>

datatype PayrollStatus = PENDING | PROCESSING | COMPLETED | FAILED | PARTIALLY_COMPLETED

text \<open>
  A JavaScript number, as far as the code looks at one: it is compared with zero,
  tested with \<open>isNaN\<close>, and handed to the database as an integer key.
\<close>

datatype number = NaN | Num rat | PosInfinity | NegInfinity

record Payroll =
  id_p :: int
  payroll_period :: string
  total_amount :: number
  total_employees :: nat
  status_p :: PayrollStatus
  processed_count :: nat
  failed_count :: nat
  updated_at_p :: nat
  processed_at_p :: "nat option"

record PayrollItem =
  id_i :: int
  payroll_id :: int
  employee_id :: int
  amount :: number
  status_i :: PayrollStatus
  transaction_reference :: "string option"
  error_message :: "string option"
  processed_at_i :: "nat option"
  updated_at_i :: nat

record Employee =
  id_e :: int
  name_e :: string
  account_number :: string
  bank_code :: string

record Store =
  payrolls :: "Payroll list"
  payroll_items :: "PayrollItem list"
  employees :: "Employee list"

text \<open>
  An optional string argument or a nullable text column: \<open>None\<close> is \<open>undefined\<close> or
  \<open>null\<close>. JavaScript's \<open>if (s)\<close> holds for a string that is present and not empty.
\<close>

definition truthy :: "string option \<Rightarrow> bool" where
  "truthy s = (case s of None \<Rightarrow> False | Some v \<Rightarrow> v \<noteq> [])"

text \<open>\<open>a || b\<close> on optional strings.\<close>

definition or_else :: "string option \<Rightarrow> string option \<Rightarrow> string option" where
  "or_else a b = (if truthy a then a else b)"

definition terminal :: "PayrollStatus \<Rightarrow> bool" where
  "terminal st = (st = COMPLETED \<or> st = FAILED)"

subsection \<open>PayrollModel.updateStatus\<close>

text \<open>
  The \<open>SET\<close> clause built by \<open>PayrollModel.updateStatus\<close>, applied to one row: status and
  \<open>updated_at\<close> always, each counter when its argument is not \<open>undefined\<close>, and
  \<open>processed_at = NOW()\<close> whenever the new status is COMPLETED or PARTIALLY_COMPLETED.
\<close>

definition payroll_set :: "nat \<Rightarrow> PayrollStatus \<Rightarrow> nat option \<Rightarrow> nat option \<Rightarrow> Payroll \<Rightarrow> Payroll" where
  "payroll_set now st processedCount failedCount p =
     p\<lparr> status_p := st,
        updated_at_p := now,
        processed_count := (case processedCount of None \<Rightarrow> processed_count p | Some c \<Rightarrow> c),
        failed_count := (case failedCount of None \<Rightarrow> failed_count p | Some c \<Rightarrow> c),
        processed_at_p := (if st = COMPLETED \<or> st = PARTIALLY_COMPLETED then Some now
                           else processed_at_p p) \<rparr>"

text \<open>\<open>UPDATE payrolls SET ... WHERE id = $1\<close>.\<close>

definition PayrollModel_updateStatus ::
  "nat \<Rightarrow> int \<Rightarrow> PayrollStatus \<Rightarrow> nat option \<Rightarrow> nat option \<Rightarrow> Store \<Rightarrow> Store" where
  "PayrollModel_updateStatus now i st processedCount failedCount s =
     s\<lparr> payrolls := map (\<lambda>p. if id_p p = i then payroll_set now st processedCount failedCount p else p)
                        (payrolls s) \<rparr>"

definition PayrollModel_findById :: "int \<Rightarrow> Store \<Rightarrow> Payroll option" where
  "PayrollModel_findById i s = find (\<lambda>p. id_p p = i) (payrolls s)"

subsection \<open>PayrollItemModel\<close>

text \<open>
  The \<open>SET\<close> clause built by \<open>PayrollItemModel.updateStatus\<close>: the reference and the error
  message are pushed only when the argument is truthy, \<open>processed_at = NOW()\<close> whenever
  the new status is COMPLETED or FAILED.
\<close>

definition item_set :: "nat \<Rightarrow> PayrollStatus \<Rightarrow> string option \<Rightarrow> string option \<Rightarrow> PayrollItem \<Rightarrow> PayrollItem" where
  "item_set now st transactionReference errorMessage it =
     it\<lparr> status_i := st,
         updated_at_i := now,
         transaction_reference := (if truthy transactionReference then transactionReference
                                   else transaction_reference it),
         error_message := (if truthy errorMessage then errorMessage else error_message it),
         processed_at_i := (if st = COMPLETED \<or> st = FAILED then Some now else processed_at_i it) \<rparr>"

text \<open>\<open>UPDATE payroll_items SET ... WHERE id = $1\<close>.\<close>

definition PayrollItemModel_updateStatus ::
  "nat \<Rightarrow> int \<Rightarrow> PayrollStatus \<Rightarrow> string option \<Rightarrow> string option \<Rightarrow> Store \<Rightarrow> Store" where
  "PayrollItemModel_updateStatus now i st transactionReference errorMessage s =
     s\<lparr> payroll_items := map (\<lambda>it. if id_i it = i then item_set now st transactionReference errorMessage it
                                    else it)
                             (payroll_items s) \<rparr>"

text \<open>
  The item queries select \<open>FROM payroll_items pi JOIN employees e ON pi.employee_id = e.id\<close>:
  an item whose employee row is missing is not returned.
\<close>

definition joins_employee :: "Store \<Rightarrow> PayrollItem \<Rightarrow> bool" where
  "joins_employee s it = (\<exists>e \<in> set (employees s). id_e e = employee_id it)"

definition PayrollItemModel_findByPayrollId :: "int \<Rightarrow> Store \<Rightarrow> PayrollItem list" where
  "PayrollItemModel_findByPayrollId payrollId s =
     filter (\<lambda>it. payroll_id it = payrollId \<and> joins_employee s it) (payroll_items s)"

definition PayrollItemModel_findById :: "int \<Rightarrow> Store \<Rightarrow> PayrollItem option" where
  "PayrollItemModel_findById i s = find (\<lambda>it. id_i it = i \<and> joins_employee s it) (payroll_items s)"

definition EmployeeModel_findById :: "int \<Rightarrow> Store \<Rightarrow> Employee option" where
  "EmployeeModel_findById i s = find (\<lambda>e. id_e e = i) (employees s)"

section \<open>Aggregate recompute (updatePayrollStats, three call sites)\<close>

definition count_status :: "PayrollStatus \<Rightarrow> PayrollItem list \<Rightarrow> nat" where
  "count_status st items = length (filter (\<lambda>i. status_i i = st) items)"

text \<open>The job processor's copy (lines 85 to 105): \<open>let status = PROCESSING\<close>, then the \<open>if\<close> chain.\<close>

definition updatePayrollStats_processor :: "nat \<Rightarrow> int \<Rightarrow> Store \<Rightarrow> Store" where
  "updatePayrollStats_processor now payrollId s =
     (let items = PayrollItemModel_findByPayrollId payrollId s;
          completed = count_status COMPLETED items;
          failed = count_status FAILED items;
          status = (if completed = length items then COMPLETED
                    else if failed = length items then FAILED
                    else if completed > 0 then PARTIALLY_COMPLETED
                    else PROCESSING)
      in PayrollModel_updateStatus now payrollId status (Some completed) (Some failed) s)"

text \<open>The controller's copy (lines 339 to 362): the private static helper, with \<open>total\<close>.\<close>

definition updatePayrollStats_controller :: "nat \<Rightarrow> int \<Rightarrow> Store \<Rightarrow> Store" where
  "updatePayrollStats_controller now payrollId s =
     (let items = PayrollItemModel_findByPayrollId payrollId s;
          completed = count_status COMPLETED items;
          failed = count_status FAILED items;
          total = length items;
          status = (if completed = total then COMPLETED
                    else if failed = total then FAILED
                    else if completed > 0 then PARTIALLY_COMPLETED
                    else PROCESSING)
      in PayrollModel_updateStatus now payrollId status (Some completed) (Some failed) s)"

text \<open>The webhook router's copy (lines 576 to 596), below the route.\<close>

definition updatePayrollStats_webhook :: "nat \<Rightarrow> int \<Rightarrow> Store \<Rightarrow> Store" where
  "updatePayrollStats_webhook now payrollId s =
     (let items = PayrollItemModel_findByPayrollId payrollId s;
          completed = count_status COMPLETED items;
          failed = count_status FAILED items;
          status = (if completed = length items then COMPLETED
                    else if failed = length items then FAILED
                    else if completed > 0 then PARTIALLY_COMPLETED
                    else PROCESSING)
      in PayrollModel_updateStatus now payrollId status (Some completed) (Some failed) s)"

text \<open>
  The aggregate function in the specification's words (section 4.3), to compare the
  three call sites with.
\<close>

definition aggregate_spec :: "nat \<Rightarrow> nat \<Rightarrow> nat \<Rightarrow> PayrollStatus" where
  "aggregate_spec completed failed itemCount =
     (if completed = itemCount then COMPLETED
      else if failed = itemCount then FAILED
      else if (completed > 0 \<and> completed + failed < itemCount) \<or> (completed > 0 \<and> failed > 0)
           then PARTIALLY_COMPLETED
      else PROCESSING)"

text \<open>
  What a recompute of batch \<open>payrollId\<close> has to leave in the store \<open>s'\<close>, starting from
  \<open>s\<close>: the batch's row holds the specification's status and both counts, taken from
  the items the batch has in \<open>s\<close>; no other row of any table differs.
\<close>

definition aggregate_written :: "int \<Rightarrow> Store \<Rightarrow> Store \<Rightarrow> bool" where
  "aggregate_written payrollId s s' =
     (let items = PayrollItemModel_findByPayrollId payrollId s;
          c = count_status COMPLETED items;
          f = count_status FAILED items
      in c + f \<le> length items \<and>
         payroll_items s' = payroll_items s \<and> employees s' = employees s \<and>
         list_all2 (\<lambda>p p'. if id_p p = payrollId
                            then id_p p' = payrollId \<and>
                                 status_p p' = aggregate_spec c f (length items) \<and>
                                 processed_count p' = c \<and> failed_count p' = f
                            else p' = p)
                   (payrolls s) (payrolls s'))"

section \<open>Notification receiver (the webhook router)\<close>

record EventData =
  reference :: "string option"
  transactionReference :: "string option"
  transactionDescription :: "string option"
  status_ev :: "string option"

record WebhookBody =
  eventType :: "string option"
  eventData :: "EventData option"

record Request =
  monnify_signature :: "string option"
  body :: WebhookBody

text \<open>
  \<open>verifySignature\<close>. The keyed hash (\<open>crypto.createHmac('sha512', secret)\<close> with its hex
  digest) and \<open>JSON.stringify\<close> are library functions, taken as parameters.
\<close>

definition verifySignature ::
  "(string \<Rightarrow> string \<Rightarrow> string) \<Rightarrow> (WebhookBody \<Rightarrow> string) \<Rightarrow> string \<Rightarrow> Request \<Rightarrow> bool" where
  "verifySignature hmac_sha512_hex stringify secret req =
     (if \<not> truthy (monnify_signature req) then False
      else Some (hmac_sha512_hex secret (stringify (body req))) = monnify_signature req)"

text \<open>\<open>String.prototype.split\<close> with a one-character separator.\<close>

fun split_on :: "char \<Rightarrow> string \<Rightarrow> string list" where
  "split_on c [] = [[]]"
| "split_on c (x # xs) =
     (if x = c then [] # split_on c xs
      else (case split_on c xs of [] \<Rightarrow> [[x]] | p # ps \<Rightarrow> (x # p) # ps))"

text \<open>Array destructuring: an element past the end is \<open>undefined\<close>.\<close>

definition element :: "'a list \<Rightarrow> nat \<Rightarrow> 'a option" where
  "element xs n = (if n < length xs then Some (xs ! n) else None)"

text \<open>
  A number bound to an integer column of a query. The driver sends the number as its
  decimal text; the key columns are \<open>SERIAL\<close> and \<open>INTEGER\<close>, 32 bits wide. The database
  accepts an integral value from \<open>-2147483648\<close> to \<open>2147483647\<close> and rejects every other
  one (a fraction, a value out of range, \<open>NaN\<close>, an infinity), and then the query throws
  (\<open>None\<close>).
\<close>

definition integer_key :: "number \<Rightarrow> int option" where
  "integer_key n =
     (case n of
        Num r \<Rightarrow>
          (if r = of_int \<lfloor>r\<rfloor> \<and> - 2147483648 \<le> \<lfloor>r\<rfloor> \<and> \<lfloor>r\<rfloor> \<le> 2147483647 then Some \<lfloor>r\<rfloor> else None)
      | _ \<Rightarrow> None)"

text \<open>
  The route handler of \<open>POST /monnify/webhook\<close>. \<open>toNumber\<close> is JavaScript's \<open>Number(...)\<close>
  on a string or \<open>undefined\<close>, a parameter of the model: the properties of the handler
  hold for every reading of numbers, and \<open>Number_js\<close> below is the language's. The
  result is the HTTP status
  with the text sent, and the store the handler leaves. A database error inside the
  \<open>try\<close> block lands in the \<open>catch\<close>, which answers 200 \<open>OK\<close> with the writes made so far.
  The handler does not call \<open>verifySignature\<close>. \<open>webhook_write\<close> is the \<open>if\<close> chain
  on the event's outcome, \<open>webhook_item\<close> the handler from the idempotency check on,
  \<open>webhook_parse\<close> the handler before its first query, \<open>webhook\<close> the whole of it.
\<close>

definition webhook_write :: "nat \<Rightarrow> Request \<Rightarrow> EventData \<Rightarrow> int \<Rightarrow> Store \<Rightarrow> Store" where
  "webhook_write now req ed itemId s =
     (let transactionRef = transactionReference ed;
          description = or_else (transactionDescription ed) (Some [])
      in if eventType (body req) = Some ''SUCCESSFUL_DISBURSEMENT'' \<or> status_ev ed = Some ''SUCCESS''
         then PayrollItemModel_updateStatus now itemId COMPLETED transactionRef None s
         else if eventType (body req) = Some ''FAILED_DISBURSEMENT'' \<or>
                 eventType (body req) = Some ''REVERSED_DISBURSEMENT'' \<or>
                 status_ev ed = Some ''FAILED''
         then PayrollItemModel_updateStatus now itemId FAILED transactionRef description s
         else s)"

definition webhook_item ::
  "nat \<Rightarrow> Request \<Rightarrow> EventData \<Rightarrow> number \<Rightarrow> int \<Rightarrow> PayrollItem \<Rightarrow> Store \<Rightarrow> (nat \<times> string) \<times> Store" where
  "webhook_item now req ed payrollId itemId item s =
     (if status_i item = COMPLETED \<or> status_i item = FAILED then ((200, ''Already processed''), s)
      else
        let s1 = webhook_write now req ed itemId s
        in (case integer_key payrollId of
              None \<Rightarrow> ((200, ''OK''), s1)
            | Some pid \<Rightarrow> ((200, ''OK''), updatePayrollStats_webhook now pid s1)))"

text \<open>
  The handler up to its first query: it answers at once, or it has the event data, the
  batch id as a number and the item id as the key of \<open>PayrollItemModel.findById\<close>.
  No step of it reads the store.
\<close>

datatype parsed = Reply "nat \<times> string" | Target EventData number int

definition webhook_parse :: "(string option \<Rightarrow> number) \<Rightarrow> Request \<Rightarrow> parsed" where
  "webhook_parse toNumber req =
     (case eventData (body req) of
        None \<Rightarrow> Reply (200, ''Ignored'')
      | Some ed \<Rightarrow>
          (case reference ed of
             None \<Rightarrow> Reply (200, ''Ignored'')
           | Some paymentReference \<Rightarrow>
               if paymentReference = [] then Reply (200, ''Ignored'')
               else
                 let parts = split_on CHR ''_'' paymentReference;
                     prefix = element parts 0;
                     payrollIdStr = element parts 1;
                     itemIdStr = element parts 2
                 in if prefix \<noteq> Some ''PAYROLL'' then Reply (200, ''Ignored'')
                    else
                      let payrollId = toNumber payrollIdStr;
                          itemId = toNumber itemIdStr
                      in if payrollId = NaN \<or> itemId = NaN then Reply (200, ''Ignored'')
                         else (case integer_key itemId of
                                 None \<Rightarrow> Reply (200, ''OK'')
                               | Some iid \<Rightarrow> Target ed payrollId iid)))"

definition webhook ::
  "(string option \<Rightarrow> number) \<Rightarrow> nat \<Rightarrow> Request \<Rightarrow> Store \<Rightarrow> (nat \<times> string) \<times> Store" where
  "webhook toNumber now req s =
     (case webhook_parse toNumber req of
        Reply r \<Rightarrow> (r, s)
      | Target ed payrollId iid \<Rightarrow>
          (case PayrollItemModel_findById iid s of
             None \<Rightarrow> ((200, ''Ignored''), s)
           | Some item \<Rightarrow> webhook_item now req ed payrollId iid item s))"

subsection \<open>\<open>Number(...)\<close> on a string\<close>

text \<open>
  \<open>Number(x)\<close> for \<open>x\<close> a string or \<open>undefined\<close>, the argument the handlers give it
  (\<open>StringToNumber\<close> of the language definition): white space is trimmed at both
  ends; the empty string is 0; a string that starts with \<open>0x\<close>, \<open>0o\<close> or \<open>0b\<close> (either
  case) is read in base 16, 8 or 2 and carries no sign; every other string is an
  optionally signed \<open>Infinity\<close> or decimal literal (digits, an optional point, an
  optional exponent); anything else is \<open>NaN\<close>. The value read is rounded to the nearest
  double, ties to the even significand, and beyond the largest double to an infinity.

  Limits of the model: a character of a \<open>string\<close> is a code unit below 256, so of the
  white space of the language only the tab, the line feed, the vertical tab, the form
  feed, the carriage return, the space and the no-break space occur; \<open>-0\<close> is not told from
  \<open>0\<close> (no caller tells them apart: \<open>isNaN\<close> is false for both and both print as \<open>0\<close>);
  a literal of more than 20 significant digits is rounded from its exact value, which
  the language definition allows and V8 does.
\<close>

definition js_whitespace :: "char \<Rightarrow> bool" where
  "js_whitespace c = (of_char c \<in> {9, 10, 11, 12, 13, 32, 160 :: nat})"

definition trim_js :: "string \<Rightarrow> string" where
  "trim_js str = rev (dropWhile js_whitespace (rev (dropWhile js_whitespace str)))"

text \<open>The value of a digit, decimal or hexadecimal, and of a non-empty digit string in base \<open>b\<close>.\<close>

definition digit_value :: "char \<Rightarrow> int option" where
  "digit_value c =
     (let n = int (of_char c)
      in if 48 \<le> n \<and> n \<le> 57 then Some (n - 48)
         else if 97 \<le> n \<and> n \<le> 102 then Some (n - 87)
         else if 65 \<le> n \<and> n \<le> 70 then Some (n - 55)
         else None)"

fun digits_value :: "int \<Rightarrow> int \<Rightarrow> string \<Rightarrow> int option" where
  "digits_value b acc [] = Some acc"
| "digits_value b acc (c # cs) =
     (case digit_value c of
        None \<Rightarrow> None
      | Some d \<Rightarrow> if d < b then digits_value b (b * acc + d) cs else None)"

definition digits :: "int \<Rightarrow> string \<Rightarrow> int option" where
  "digits b str = (if str = [] then None else digits_value b 0 str)"

definition pow2 :: "int \<Rightarrow> rat" where
  "pow2 k = (if 0 \<le> k then 2 ^ nat k else 1 / 2 ^ nat (- k))"

definition pow10 :: "int \<Rightarrow> rat" where
  "pow10 k = (if 0 \<le> k then 10 ^ nat k else 1 / 10 ^ nat (- k))"

text \<open>
  The double nearest to a rational. \<open>floor_log2 a\<close> is the exponent of the power of two
  at or below \<open>a > 0\<close>; a double has 53 significant bits and no exponent below \<open>-1074\<close>,
  so its last bit weighs \<open>2 ^ e\<close> for \<open>e\<close> the larger of \<open>floor_log2 a - 52\<close> and \<open>-1074\<close>.
  An integer up to \<open>2 ^ 53\<close> in magnitude is a double as it is.
\<close>

definition floor_log2 :: "rat \<Rightarrow> int" where
  "floor_log2 a =
     (case quotient_of a of (p, q) \<Rightarrow>
        let k = bitlen p - bitlen q in if pow2 k \<le> a then k else k - 1)"

definition round_half_even :: "rat \<Rightarrow> int" where
  "round_half_even q =
     (let f = \<lfloor>q\<rfloor>; d = q - of_int f
      in if d < 1 / 2 then f else if 1 / 2 < d then f + 1 else if even f then f else f + 1)"

definition to_double :: "rat \<Rightarrow> number" where
  "to_double r =
     (if r = of_int \<lfloor>r\<rfloor> \<and> \<bar>r\<bar> \<le> 9007199254740992 then Num r
      else
        let a = \<bar>r\<bar>;
            e = max (floor_log2 a - 52) (- 1074);
            v = of_int (round_half_even (a / pow2 e)) * pow2 e
        in if pow2 1024 \<le> v then (if r < 0 then NegInfinity else PosInfinity)
           else Num (if r < 0 then - v else v))"

text \<open>
  An unsigned decimal literal: digits with an optional point (at least one digit on one
  side of it) and an optional exponent part \<open>e\<close> or \<open>E\<close>, an optional sign, digits.
\<close>

definition unsigned_decimal :: "string \<Rightarrow> rat option" where
  "unsigned_decimal str =
     (let mantissa = takeWhile (\<lambda>c. c \<noteq> CHR ''e'' \<and> c \<noteq> CHR ''E'') str;
          exponent = dropWhile (\<lambda>c. c \<noteq> CHR ''e'' \<and> c \<noteq> CHR ''E'') str;
          ip = takeWhile (\<lambda>c. c \<noteq> CHR ''.'') mantissa;
          fp = drop 1 (dropWhile (\<lambda>c. c \<noteq> CHR ''.'') mantissa);
          ex = (case exponent of
                  [] \<Rightarrow> Some 0
                | e # es \<Rightarrow>
                    (case es of
                       [] \<Rightarrow> None
                     | c # cs \<Rightarrow>
                         if c = CHR ''-'' then map_option uminus (digits 10 cs)
                         else if c = CHR ''+'' then digits 10 cs
                         else digits 10 es))
      in if ip = [] \<and> fp = [] then None
         else (case (digits_value 10 0 ip, digits_value 10 0 fp, ex) of
                 (Some i, Some f, Some x) \<Rightarrow>
                   Some ((of_int i + of_int f / 10 ^ length fp) * pow10 x)
               | _ \<Rightarrow> None))"

definition str_decimal :: "string \<Rightarrow> number" where
  "str_decimal str =
     (let negative = (take 1 str = ''-'');
          signed = (take 1 str = ''-'' \<or> take 1 str = ''+'');
          unsigned = (if signed then drop 1 str else str)
      in if unsigned = ''Infinity'' then (if negative then NegInfinity else PosInfinity)
         else (case unsigned_decimal unsigned of
                 None \<Rightarrow> NaN
               | Some r \<Rightarrow> to_double (if negative then - r else r)))"

definition non_decimal :: "string \<Rightarrow> int option" where
  "non_decimal str =
     (if take 2 str = ''0x'' \<or> take 2 str = ''0X'' then digits 16 (drop 2 str)
      else if take 2 str = ''0o'' \<or> take 2 str = ''0O'' then digits 8 (drop 2 str)
      else if take 2 str = ''0b'' \<or> take 2 str = ''0B'' then digits 2 (drop 2 str)
      else None)"

definition Number_js :: "string option \<Rightarrow> number" where
  "Number_js x =
     (case x of
        None \<Rightarrow> NaN
      | Some str \<Rightarrow>
          let t = trim_js str
          in if t = [] then Num 0
             else if take 2 t \<in> {''0x'', ''0X'', ''0o'', ''0O'', ''0b'', ''0B''}
             then (case non_decimal t of None \<Rightarrow> NaN | Some n \<Rightarrow> to_double (of_int n))
             else str_decimal t)"

section \<open>Reconciler (PayrollController.reconcilePayroll)\<close>

text \<open>
  The JSON that \<open>getTransactionStatus\<close> returns: the payment fields either at the top
  level or under \<open>responseBody\<close>. The call itself either returns or throws; the
  gateway is a function from the transaction reference to that outcome.
\<close>

record TxBody =
  paymentStatus :: "string option"
  status_tx :: "string option"
  paymentDescription :: "string option"
  failureReason :: "string option"

record TxStatus =
  top_level :: TxBody
  responseBody :: "TxBody option"

datatype 'a outcome = Throws string | Returns 'a

datatype ReconcileResponse =
    NotFound404
  | ServerError500
  | NoItemsToReconcile
  | Reconciled (reconciled: nat) (errors: nat) (total: nat)

text \<open>
  The \<open>try\<close> block of one loop iteration up to its call of \<open>updateStatus\<close>: the lookup
  throws, or the item is to be updated with a status and an error message, or it is
  left as it is. \<open>item\<close> is the row as the sweep loaded it.
\<close>

datatype decision = Errored | Update PayrollStatus "string option" | Leave

definition payment_of :: "TxStatus \<Rightarrow> string option" where
  "payment_of txStatus =
     (let rb = (case responseBody txStatus of Some b \<Rightarrow> b | None \<Rightarrow> top_level txStatus)
      in or_else (paymentStatus rb) (status_tx rb))"

definition failure_text :: "TxStatus \<Rightarrow> string option" where
  "failure_text txStatus =
     (let rb = (case responseBody txStatus of Some b \<Rightarrow> b | None \<Rightarrow> top_level txStatus)
      in or_else (paymentDescription rb) (or_else (failureReason rb) (Some ''Transaction failed'')))"

definition reconcile_decision :: "(string \<Rightarrow> TxStatus outcome) \<Rightarrow> PayrollItem \<Rightarrow> decision" where
  "reconcile_decision getTransactionStatus item =
     (case transaction_reference item of
        None \<Rightarrow> Leave
      | Some ref \<Rightarrow>
          (case getTransactionStatus ref of
             Throws msg \<Rightarrow> Errored
           | Returns txStatus \<Rightarrow>
               if payment_of txStatus = Some ''PAID'' \<and> status_i item \<noteq> COMPLETED
               then Update COMPLETED None
               else if payment_of txStatus = Some ''FAILED'' \<and> status_i item \<noteq> FAILED
               then Update FAILED (failure_text txStatus)
               else Leave))"

text \<open>
  The state of the sweep: the store, the counters \<open>updated\<close> and \<open>errors\<close>, and the
  references looked up at the gateway so far. The loop runs over items whose
  reference is truthy, so an item without one (no lookup) does not occur in it.
\<close>

record Sweep =
  store :: Store
  updated :: nat
  errors_n :: nat
  lookups :: "string list"

definition reconcile_item ::
  "(string \<Rightarrow> TxStatus outcome) \<Rightarrow> nat \<Rightarrow> PayrollItem \<Rightarrow> Sweep \<Rightarrow> Sweep" where
  "reconcile_item getTransactionStatus now item w =
     (let w1 = w\<lparr> lookups := lookups w @ (case transaction_reference item of None \<Rightarrow> [] | Some ref \<Rightarrow> [ref]) \<rparr>
      in case reconcile_decision getTransactionStatus item of
           Errored \<Rightarrow> w1\<lparr> errors_n := errors_n w1 + 1 \<rparr>
         | Update st errorMessage \<Rightarrow>
             w1\<lparr> store := PayrollItemModel_updateStatus now (id_i item) st
                               (transaction_reference item) errorMessage (store w1),
                 updated := updated w1 + 1 \<rparr>
         | Leave \<Rightarrow> w1)"

text \<open>
  The value of \<open>this\<close> inside the static method. A class body is strict code, so
  \<open>this\<close> is whatever the call supplies: the class, when the method is called on it
  (\<open>PayrollController.reconcilePayroll(req, res)\<close>); \<open>undefined\<close>, when the function is
  taken off the class and called on its own.
\<close>

datatype receiver = Detached | OnClass

definition itemsToReconcile :: "int \<Rightarrow> Store \<Rightarrow> PayrollItem list" where
  "itemsToReconcile pid s =
     filter (\<lambda>item. truthy (transaction_reference item)) (PayrollItemModel_findByPayrollId pid s)"

text \<open>
  \<open>reconcilePayroll\<close>, with the value of \<open>this\<close> and with \<open>Number(req.params.id)\<close>; the
  result is the response, the store left, and the references looked up at the gateway,
  in order. A query with a number that is no key throws, and the outer \<open>catch\<close> answers
  500. After the loop the method evaluates \<open>this.updatePayrollStats(Number(id))\<close>
  (line 322): with \<open>this\<close> undefined the property access throws a \<open>TypeError\<close> before
  any recompute, and the outer \<open>catch\<close> answers 500 in place of the summary; the writes
  of the loop are not in a transaction and stay.
\<close>

definition reconcilePayroll ::
  "receiver \<Rightarrow> (string \<Rightarrow> TxStatus outcome) \<Rightarrow> nat \<Rightarrow> number \<Rightarrow> Store
     \<Rightarrow> ReconcileResponse \<times> Store \<times> string list" where
  "reconcilePayroll this_value getTransactionStatus now idn s =
     (case integer_key idn of
        None \<Rightarrow> (ServerError500, s, [])
      | Some pid \<Rightarrow>
          (case PayrollModel_findById pid s of
             None \<Rightarrow> (NotFound404, s, [])
           | Some payroll \<Rightarrow>
               if itemsToReconcile pid s = [] then (NoItemsToReconcile, s, [])
               else
                 let w = fold (reconcile_item getTransactionStatus now) (itemsToReconcile pid s)
                           \<lparr> store = s, updated = 0, errors_n = 0, lookups = [] \<rparr>
                 in (case this_value of
                       Detached \<Rightarrow> (ServerError500, store w, lookups w)
                     | OnClass \<Rightarrow>
                         (Reconciled (updated w) (errors_n w) (length (itemsToReconcile pid s)),
                          updatePayrollStats_controller now pid (store w),
                          lookups w))))"

text \<open>
  The route as registered, \<open>router.post('/:id/reconcile', PayrollController.reconcilePayroll)\<close>
  (src/routes/payroll.routes.ts, line 467): the router is handed the function and
  calls it with the request and the response, on no object; \<open>id_param\<close> is the
  request's \<open>req.params.id\<close>, a string. No other call of \<open>reconcilePayroll\<close> is in the
  source.
\<close>

definition reconcile_route ::
  "(string \<Rightarrow> TxStatus outcome) \<Rightarrow> nat \<Rightarrow> string \<Rightarrow> Store \<Rightarrow> ReconcileResponse \<times> Store \<times> string list" where
  "reconcile_route getTransactionStatus now id_param s =
     reconcilePayroll Detached getTransactionStatus now (Number_js (Some id_param)) s"

subsection \<open>Vocabulary for the reconciler's properties\<close>

text \<open>The row a sweep leaves for the row \<open>it\<close> it examined.\<close>

definition reconcile_row :: "(string \<Rightarrow> TxStatus outcome) \<Rightarrow> nat \<Rightarrow> PayrollItem \<Rightarrow> PayrollItem" where
  "reconcile_row gw now it =
     (case reconcile_decision gw it of
        Update st em \<Rightarrow> item_set now st (transaction_reference it) em it
      | _ \<Rightarrow> it)"

definition is_update :: "decision \<Rightarrow> bool" where
  "is_update d = (case d of Update st em \<Rightarrow> True | _ \<Rightarrow> False)"

text \<open>The status lookup for the item's reference throws.\<close>

definition lookup_fails :: "(string \<Rightarrow> TxStatus outcome) \<Rightarrow> PayrollItem \<Rightarrow> bool" where
  "lookup_fails gw it =
     (case transaction_reference it of
        None \<Rightarrow> False
      | Some ref \<Rightarrow> (case gw ref of Throws msg \<Rightarrow> True | Returns tx \<Rightarrow> False))"


text \<open>The number of rows whose status differs between two states of the item table.\<close>

definition status_changes :: "PayrollItem list \<Rightarrow> PayrollItem list \<Rightarrow> nat" where
  "status_changes before after =
     length (filter (\<lambda>(it, it'). status_i it' \<noteq> status_i it) (zip before after))"

section \<open>Gateway client (src/config/monnify.ts)\<close>

text \<open>
  The client holds the contract code and the cached token with its expiry. What the
  network answers is a parameter: the reply to the login request and the reply to a
  batch request, each a returned value or a thrown error. The requests the client
  sends are logged in \<open>calls\<close>, in order. \<open>clock\<close> is \<open>Date.now()\<close>, read once per call of
  the model.
\<close>

record MonnifyClient =
  contractCode :: string
  accessToken :: "string option"
  tokenExpiry :: nat

record Transfer =
  amount_t :: number
  reference_t :: string
  recipientAccountNumber :: string
  recipientBankCode :: string
  recipientName :: string
  narration_t :: string

record Disbursement =
  amount_d :: number
  reference_d :: string
  narration_d :: string
  destinationBankCode :: string
  destinationAccountNumber :: string
  currency :: string

record BatchRequest =
  title :: string
  batchReference :: string
  narration_b :: string
  sourceAccountNumber :: string
  onValidationFailure :: string
  notificationInterval :: nat
  transactionList :: "Disbursement list"

record BatchResult =
  reference_r :: "string option"
  transactionReference_r :: "string option"

record BatchResponse =
  requestSuccessful :: bool
  transactionList_r :: "BatchResult list option"

datatype net_call = AuthLogin | BatchPost BatchRequest

record Network =
  login_reply :: "string option outcome"
  batch_reply :: "BatchRequest \<Rightarrow> BatchResponse option outcome"

record Gateway =
  client :: MonnifyClient
  calls :: "net_call list"

text \<open>Decimal printing of an integer, as a template literal does it.\<close>

function string_of_nat :: "nat \<Rightarrow> string" where
  "string_of_nat n =
     (if n < 10 then [''0123456789'' ! n]
      else string_of_nat (n div 10) @ [''0123456789'' ! (n mod 10)])"
  by pat_completeness auto
termination
  by (relation "measure (\<lambda>n. n)") auto

declare string_of_nat.simps [simp del]

definition string_of_int :: "int \<Rightarrow> string" where
  "string_of_int i = (if i < 0 then CHR ''-'' # string_of_nat (nat (- i)) else string_of_nat (nat i))"

text \<open>
  \<open>authenticate\<close>: one login request; the token of the reply is stored with an expiry
  23 hours ahead; any failure is rethrown as one fixed message.
\<close>

definition authenticate :: "Network \<Rightarrow> nat \<Rightarrow> Gateway \<Rightarrow> string option \<times> Gateway" where
  "authenticate net clock g =
     (case login_reply net of
        Throws msg \<Rightarrow> (Some ''Failed to authenticate with Monnify'', g\<lparr> calls := calls g @ [AuthLogin] \<rparr>)
      | Returns token \<Rightarrow>
          (None, g\<lparr> client := (client g)\<lparr> accessToken := token,
                                           tokenExpiry := clock + 23 * 60 * 60 * 1000 \<rparr>,
                    calls := calls g @ [AuthLogin] \<rparr>))"

text \<open>\<open>!this.accessToken || Date.now() >= this.tokenExpiry\<close>.\<close>

definition token_stale :: "nat \<Rightarrow> Gateway \<Rightarrow> bool" where
  "token_stale clock g = (\<not> truthy (accessToken (client g)) \<or> clock \<ge> tokenExpiry (client g))"

definition ensureAuthenticated :: "Network \<Rightarrow> nat \<Rightarrow> Gateway \<Rightarrow> string option \<times> Gateway" where
  "ensureAuthenticated net clock g =
     (if token_stale clock g then authenticate net clock g else (None, g))"

text \<open>
  \<open>this.client.post('/api/v2/disbursements/batch', requestBody)\<close>: the request
  interceptor runs \<open>ensureAuthenticated\<close> first, then the request goes out. An error
  with a response is rethrown with the gateway's message, an error without one as it
  is; both are the thrown message of \<open>batch_reply\<close>.
\<close>

definition client_post :: "Network \<Rightarrow> nat \<Rightarrow> BatchRequest \<Rightarrow> Gateway \<Rightarrow> BatchResponse option outcome \<times> Gateway" where
  "client_post net clock requestBody g =
     (case ensureAuthenticated net clock g of
        (Some err, g1) \<Rightarrow> (Throws err, g1)
      | (None, g1) \<Rightarrow> (batch_reply net requestBody, g1\<lparr> calls := calls g1 @ [BatchPost requestBody] \<rparr>))"

text \<open>\<open>!transfer.amount || transfer.amount <= 0\<close>.\<close>

definition invalid_amount :: "number \<Rightarrow> bool" where
  "invalid_amount a =
     (case a of NaN \<Rightarrow> True | Num r \<Rightarrow> r = 0 \<or> r \<le> 0 | PosInfinity \<Rightarrow> False | NegInfinity \<Rightarrow> True)"

text \<open>The validation loop: the message of the first check that fails, in list order.\<close>

fun validate_transfers :: "Transfer list \<Rightarrow> string option" where
  "validate_transfers [] = None"
| "validate_transfers (transfer # rest) =
     (if invalid_amount (amount_t transfer)
      then Some (''Invalid amount for transfer: '' @ reference_t transfer)
      else if recipientAccountNumber transfer = []
      then Some (''Missing account number for transfer: '' @ reference_t transfer)
      else if recipientBankCode transfer = []
      then Some (''Missing bank code for transfer: '' @ reference_t transfer)
      else if recipientName transfer = []
      then Some (''Missing recipient name for transfer: '' @ reference_t transfer)
      else validate_transfers rest)"

definition request_body :: "nat \<Rightarrow> MonnifyClient \<Rightarrow> Transfer list \<Rightarrow> BatchRequest" where
  "request_body clock c transfers =
     \<lparr> title = ''Bulk Payroll Transfers'',
       batchReference = ''BATCH_'' @ string_of_nat clock,
       narration_b = ''Payroll batch disbursement'',
       sourceAccountNumber = contractCode c,
       onValidationFailure = ''CONTINUE'',
       notificationInterval = 50,
       transactionList =
         map (\<lambda>t. \<lparr> amount_d = amount_t t, reference_d = reference_t t, narration_d = narration_t t,
                     destinationBankCode = recipientBankCode t,
                     destinationAccountNumber = recipientAccountNumber t,
                     currency = ''NGN'' \<rparr>) transfers \<rparr>"

text \<open>
  \<open>initiateBulkTransfer\<close>: \<open>Inl\<close> is the message of the error thrown, \<open>Inr\<close> the
  response data.
\<close>

definition initiateBulkTransfer ::
  "Network \<Rightarrow> nat \<Rightarrow> Transfer list \<Rightarrow> Gateway \<Rightarrow> (string + BatchResponse option) \<times> Gateway" where
  "initiateBulkTransfer net clock transfers g =
     (case ensureAuthenticated net clock g of
        (Some err, g1) \<Rightarrow> (Inl err, g1)
      | (None, g1) \<Rightarrow>
          if transfers = [] then (Inl ''No transfers provided'', g1)
          else if contractCode (client g1) = [] then (Inl ''Monnify contract code is not configured'', g1)
          else (case validate_transfers transfers of
                  Some err \<Rightarrow> (Inl err, g1)
                | None \<Rightarrow>
                    (case client_post net clock (request_body clock (client g1) transfers) g1 of
                       (Throws err, g2) \<Rightarrow> (Inl err, g2)
                     | (Returns data, g2) \<Rightarrow> (Inr data, g2))))"

section \<open>Batch processing (processBulkPayroll)\<close>

definition payment_reference :: "int \<Rightarrow> int \<Rightarrow> string" where
  "payment_reference payrollId itemId = ''PAYROLL_'' @ string_of_int payrollId @ ''_'' @ string_of_int itemId"

text \<open>The eligibility filter of \<open>processBulkPayroll\<close>.\<close>

definition payable :: "PayrollItem list \<Rightarrow> PayrollItem list" where
  "payable items =
     filter (\<lambda>i. status_i i = PENDING \<or> (status_i i = PROCESSING \<and> \<not> truthy (transaction_reference i)))
            items"

text \<open>
  The first loop: for each payable item the employee is looked up (a missing one
  throws), the item is marked PROCESSING, and its transfer (\<open>transfer_of\<close>, the object
  literal of the source) is pushed. The result is
  the error thrown, if any, the store with the marks made until then, and the
  transfers.
\<close>

definition transfer_of :: "int \<Rightarrow> PayrollItem \<Rightarrow> Employee \<Rightarrow> Transfer" where
  "transfer_of payrollId item employee =
     \<lparr> amount_t = amount item,
       reference_t = payment_reference payrollId (id_i item),
       recipientAccountNumber = account_number employee,
       recipientBankCode = bank_code employee,
       recipientName = name_e employee,
       narration_t = ''Payroll payment'' \<rparr>"

fun build_transfers ::
  "nat \<Rightarrow> int \<Rightarrow> PayrollItem list \<Rightarrow> Store \<Rightarrow> Transfer list \<Rightarrow> string option \<times> Store \<times> Transfer list" where
  "build_transfers now payrollId [] s transfers = (None, s, transfers)"
| "build_transfers now payrollId (item # rest) s transfers =
     (case EmployeeModel_findById (employee_id item) s of
        None \<Rightarrow> (Some ''Employee not found'', s, transfers)
      | Some employee \<Rightarrow>
          build_transfers now payrollId rest
            (PayrollItemModel_updateStatus now (id_i item) PROCESSING None None s)
            (transfers @ [transfer_of payrollId item employee]))"

text \<open>
  The second loop: the gateway's entry for the item's reference, if it carries a
  transaction reference, is stored with the item, which stays PROCESSING.
\<close>

fun backfill :: "nat \<Rightarrow> int \<Rightarrow> BatchResult list \<Rightarrow> PayrollItem list \<Rightarrow> Store \<Rightarrow> Store" where
  "backfill now payrollId results [] s = s"
| "backfill now payrollId results (item # rest) s =
     (case find (\<lambda>r. reference_r r = Some (payment_reference payrollId (id_i item))) results of
        None \<Rightarrow> backfill now payrollId results rest s
      | Some match \<Rightarrow>
          if truthy (transactionReference_r match)
          then backfill now payrollId results rest
                 (PayrollItemModel_updateStatus now (id_i item) PROCESSING (transactionReference_r match) None s)
          else backfill now payrollId results rest s)"

text \<open>
  \<open>processBulkPayroll\<close>: the error thrown, if any, with the store and the gateway
  client as the invocation leaves them.
\<close>

definition processBulkPayroll ::
  "Network \<Rightarrow> nat \<Rightarrow> nat \<Rightarrow> int \<Rightarrow> Store \<times> Gateway \<Rightarrow> string option \<times> Store \<times> Gateway" where
  "processBulkPayroll net clock now payrollId sg =
     (case sg of (s, g) \<Rightarrow>
       let items = PayrollItemModel_findByPayrollId payrollId s
       in if payable items = [] then (None, s, g)
          else
            (case build_transfers now payrollId (payable items)
                    (PayrollModel_updateStatus now payrollId PROCESSING None None s) [] of
               (Some err, s2, transfers) \<Rightarrow> (Some err, s2, g)
             | (None, s2, transfers) \<Rightarrow>
                 (case initiateBulkTransfer net clock transfers g of
                    (Inl err, g1) \<Rightarrow> (Some err, s2, g1)
                  | (Inr response, g1) \<Rightarrow>
                      (case response of
                         None \<Rightarrow> (Some ''Bulk transfer initiation failed'', s2, g1)
                       | Some r \<Rightarrow>
                           if \<not> requestSuccessful r then (Some ''Bulk transfer initiation failed'', s2, g1)
                           else
                             let results = (case transactionList_r r of None \<Rightarrow> [] | Some l \<Rightarrow> l)
                             in (None,
                                 updatePayrollStats_processor now payrollId
                                   (backfill now payrollId results (payable items) s2),
                                 g1)))))"

subsection \<open>Vocabulary for the properties of submission\<close>

text \<open>
  A transfer with a non-positive amount, an empty account number or an empty bank
  code; a transfer that fails one of the four checks of the validation loop; a
  message that carries one of the loop's four texts followed by the transfer's
  reference; the login request failing.
\<close>

definition offending :: "Transfer \<Rightarrow> bool" where
  "offending t = (invalid_amount (amount_t t) \<or> recipientAccountNumber t = [] \<or> recipientBankCode t = [])"

definition fails_validation :: "Transfer \<Rightarrow> bool" where
  "fails_validation t = (offending t \<or> recipientName t = [])"

definition names_transfer :: "string \<Rightarrow> Transfer \<Rightarrow> bool" where
  "names_transfer msg t =
     (msg = ''Invalid amount for transfer: '' @ reference_t t \<or>
      msg = ''Missing account number for transfer: '' @ reference_t t \<or>
      msg = ''Missing bank code for transfer: '' @ reference_t t \<or>
      msg = ''Missing recipient name for transfer: '' @ reference_t t)"

definition login_fails :: "Network \<Rightarrow> bool" where
  "login_fails net = (case login_reply net of Throws msg \<Rightarrow> True | Returns token \<Rightarrow> False)"

text \<open>
  Eligibility in the specification's words, and the two facts about stored references
  that every writer of the item table keeps: a stored reference is never the empty
  string, and a PENDING item holds none.
\<close>

definition eligible :: "PayrollItem \<Rightarrow> bool" where
  "eligible i = (status_i i = PENDING \<or> (status_i i = PROCESSING \<and> transaction_reference i = None))"

definition references_wellformed :: "PayrollItem list \<Rightarrow> bool" where
  "references_wellformed items =
     list_all (\<lambda>i. transaction_reference i \<noteq> Some [] \<and>
                    (status_i i = PENDING \<longrightarrow> transaction_reference i = None)) items"

text \<open>No row of the item table that held a reference in \<open>s\<close> is without one in \<open>s'\<close>.\<close>

definition keeps_references :: "Store \<Rightarrow> Store \<Rightarrow> bool" where
  "keeps_references s s' =
     list_all2 (\<lambda>it it'. transaction_reference it \<noteq> None \<longrightarrow> transaction_reference it' \<noteq> None)
               (payroll_items s) (payroll_items s')"

text \<open>The item's transfer passes the four checks of the validation loop.\<close>

definition transfer_valid :: "Store \<Rightarrow> PayrollItem \<Rightarrow> bool" where
  "transfer_valid s i =
     (\<not> invalid_amount (amount i) \<and>
      (case EmployeeModel_findById (employee_id i) s of
         None \<Rightarrow> False
       | Some e \<Rightarrow> account_number e \<noteq> [] \<and> bank_code e \<noteq> [] \<and> name_e e \<noteq> []))"

text \<open>The batch requests among the calls sent.\<close>

definition batch_posts :: "net_call list \<Rightarrow> BatchRequest list" where
  "batch_posts cs = concat (map (\<lambda>c. case c of BatchPost r \<Rightarrow> [r] | AuthLogin \<Rightarrow> []) cs)"

section \<open>Concrete stores and events\<close>

text \<open>
  Two batches, 27 and 99, with one item each (51 and 60), both submitted and waiting
  for their outcome; a store whose only item is already paid; a batch with two paid
  items and a failed one; a batch just created;
  a batch with two submitted items and one pending; an event as the gateway posts
  it, without a signature header; a failure event with an empty description; gateway
  answers to a status lookup; a client without a token, a network that accepts
  every request, and a transfer.
\<close>

definition ex_employee :: Employee where
  "ex_employee = \<lparr> id_e = 7, name_e = ''Ada Obi'', account_number = ''0123456789'', bank_code = ''058'' \<rparr>"

definition ex_item :: "int \<Rightarrow> int \<Rightarrow> PayrollStatus \<Rightarrow> string option \<Rightarrow> PayrollItem" where
  "ex_item i p st ref =
     \<lparr> id_i = i, payroll_id = p, employee_id = 7, amount = Num 100, status_i = st,
       transaction_reference = ref, error_message = None, processed_at_i = None, updated_at_i = 1 \<rparr>"

definition ex_payroll :: "int \<Rightarrow> PayrollStatus \<Rightarrow> Payroll" where
  "ex_payroll i st =
     \<lparr> id_p = i, payroll_period = ''2026-01'', total_amount = Num 100, total_employees = 1,
       status_p = st, processed_count = 0, failed_count = 0, updated_at_p = 1, processed_at_p = None \<rparr>"

definition ex_store :: Store where
  "ex_store =
     \<lparr> payrolls = [ex_payroll 27 PROCESSING, ex_payroll 99 PROCESSING],
       payroll_items = [ex_item 51 27 PROCESSING (Some ''MFDS51''), ex_item 60 99 PROCESSING (Some ''MFDS60'')],
       employees = [ex_employee] \<rparr>"

definition ex_event :: "string \<Rightarrow> string \<Rightarrow> Request" where
  "ex_event ty ref =
     \<lparr> monnify_signature = None,
       body = \<lparr> eventType = Some ty,
                eventData = Some \<lparr> reference = Some ref, transactionReference = Some ''MFDS51'',
                                   transactionDescription = None, status_ev = None \<rparr> \<rparr> \<rparr>"

definition ex_paid_store :: Store where
  "ex_paid_store =
     \<lparr> payrolls = [ex_payroll 27 PROCESSING],
       payroll_items = [(ex_item 51 27 COMPLETED (Some ''MFDS51''))\<lparr> processed_at_i := Some 5 \<rparr>],
       employees = [ex_employee] \<rparr>"

definition ex_tx :: "string \<Rightarrow> TxStatus" where
  "ex_tx payment =
     \<lparr> top_level = \<lparr> paymentStatus = None, status_tx = None, paymentDescription = None, failureReason = None \<rparr>,
       responseBody = Some \<lparr> paymentStatus = Some payment, status_tx = None,
                              paymentDescription = None, failureReason = None \<rparr> \<rparr>"

definition ex_mixed_store :: Store where
  "ex_mixed_store =
     \<lparr> payrolls = [ex_payroll 27 PROCESSING],
       payroll_items = [ex_item 51 27 COMPLETED (Some ''MFDS51''),
                        ex_item 52 27 COMPLETED (Some ''MFDS52''),
                        ex_item 53 27 FAILED (Some ''MFDS53'')],
       employees = [ex_employee] \<rparr>"

definition ex_fresh_store :: Store where
  "ex_fresh_store =
     \<lparr> payrolls = [ex_payroll 27 PENDING],
       payroll_items = [ex_item 51 27 PENDING None],
       employees = [ex_employee] \<rparr>"

definition ex_sweep_store :: Store where
  "ex_sweep_store =
     \<lparr> payrolls = [ex_payroll 27 PROCESSING],
       payroll_items = [ex_item 51 27 PROCESSING (Some ''MFDS51''),
                        ex_item 52 27 PROCESSING (Some ''MFDS52''),
                        ex_item 53 27 PENDING None],
       employees = [ex_employee] \<rparr>"

definition ex_gateway :: "string \<Rightarrow> TxStatus outcome" where
  "ex_gateway ref = (if ref = ''MFDS51'' then Throws ''timeout'' else Returns (ex_tx ''PAID''))"

definition ex_client :: Gateway where
  "ex_client =
     \<lparr> client = \<lparr> contractCode = ''7000000001'', accessToken = None, tokenExpiry = 0 \<rparr>,
       calls = [] \<rparr>"

definition ex_network :: Network where
  "ex_network =
     \<lparr> login_reply = Returns (Some ''token-1''),
       batch_reply = (\<lambda>req. Returns (Some
          \<lparr> requestSuccessful = True,
            transactionList_r = Some (map (\<lambda>d. \<lparr> reference_r = Some (reference_d d),
                                                  transactionReference_r = Some (''MFDS-'' @ reference_d d) \<rparr>)
                                          (transactionList req)) \<rparr>)) \<rparr>"

definition ex_transfer :: "number \<Rightarrow> Transfer" where
  "ex_transfer a =
     \<lparr> amount_t = a, reference_t = ''PAYROLL_27_51'', recipientAccountNumber = ''0123456789'',
       recipientBankCode = ''058'', recipientName = ''Ada Obi'', narration_t = ''Payroll payment'' \<rparr>"

definition ex_failure_event :: Request where
  "ex_failure_event =
     \<lparr> monnify_signature = None,
       body = \<lparr> eventType = Some ''FAILED_DISBURSEMENT'',
                eventData = Some \<lparr> reference = Some ''PAYROLL_27_51'', transactionReference = None,
                                   transactionDescription = Some [], status_ev = Some ''FAILED'' \<rparr> \<rparr> \<rparr>"

section \<open>Properties of the row updates\<close>

lemma truthy_simps [simp]:
  "truthy None = False" "truthy (Some v) = (v \<noteq> [])"
  by (simp_all add: truthy_def)

lemma count_status_disjoint:
  "count_status COMPLETED items + count_status FAILED items \<le> length items"
proof (induction items)
  case Nil
  show ?case by (simp add: count_status_def)
next
  case (Cons i items)
  then show ?case by (cases "status_i i") (simp_all add: count_status_def)
qed

lemma code_status_is_spec:
  assumes "c + f \<le> t"
  shows "(if c = t then COMPLETED else if f = t then FAILED
          else if c > 0 then PARTIALLY_COMPLETED else PROCESSING) = aggregate_spec c f (t::nat)"
  using assms unfolding aggregate_spec_def by auto

lemma list_all2_map_self:
  "list_all2 P xs (map f xs) = (\<forall>x \<in> set xs. P x (f x))"
  by (simp add: list_all2_map2 list_all2_same)

lemma zip_map_self: "zip xs (map h xs) = map (\<lambda>x. (x, h x)) xs"
  by (induction xs) simp_all

lemma status_changes_map:
  "status_changes T (map h T) = length (filter (\<lambda>row. status_i (h row) \<noteq> status_i row) T)"
  by (simp add: status_changes_def zip_map_self filter_map comp_def)

lemma status_changes_same [simp]: "status_changes T T = 0"
  using status_changes_map [of T "\<lambda>x. x"] by simp


lemma aggregate_written_updateStatus:
  "aggregate_written payrollId s
     (PayrollModel_updateStatus now payrollId
        (aggregate_spec (count_status COMPLETED (PayrollItemModel_findByPayrollId payrollId s))
                        (count_status FAILED (PayrollItemModel_findByPayrollId payrollId s))
                        (length (PayrollItemModel_findByPayrollId payrollId s)))
        (Some (count_status COMPLETED (PayrollItemModel_findByPayrollId payrollId s)))
        (Some (count_status FAILED (PayrollItemModel_findByPayrollId payrollId s))) s)"
  unfolding aggregate_written_def PayrollModel_updateStatus_def Let_def
  by (simp add: list_all2_map_self payroll_set_def count_status_disjoint)

text \<open>
  C3. Each of the three aggregate-recompute call sites (job processor, controller,
  webhook route) writes, for the batch it is called on, exactly the status that the
  specification's section 4.3 function gives for the counts of COMPLETED and FAILED
  items among the batch's current items, and stores those two counts; the counts
  never exceed the number of items, and no other row changes.
\<close>

theorem updatePayrollStats_is_aggregate_spec:
  "aggregate_written payrollId s (updatePayrollStats_processor now payrollId s) \<and>
   aggregate_written payrollId s (updatePayrollStats_controller now payrollId s) \<and>
   aggregate_written payrollId s (updatePayrollStats_webhook now payrollId s)"
proof -
  let ?items = "PayrollItemModel_findByPayrollId payrollId s"
  let ?c = "count_status COMPLETED ?items"
  let ?f = "count_status FAILED ?items"
  have le: "?c + ?f \<le> length ?items" by (rule count_status_disjoint)
  have st: "(if ?c = length ?items then COMPLETED else if ?f = length ?items then FAILED
             else if ?c > 0 then PARTIALLY_COMPLETED else PROCESSING)
            = aggregate_spec ?c ?f (length ?items)"
    by (rule code_status_is_spec [OF le])
  have w: "aggregate_written payrollId s
            (PayrollModel_updateStatus now payrollId (aggregate_spec ?c ?f (length ?items)) (Some ?c) (Some ?f) s)"
    by (rule aggregate_written_updateStatus)
  have p: "updatePayrollStats_processor now payrollId s
           = PayrollModel_updateStatus now payrollId (aggregate_spec ?c ?f (length ?items)) (Some ?c) (Some ?f) s"
    unfolding updatePayrollStats_processor_def Let_def st ..
  have c: "updatePayrollStats_controller now payrollId s
           = PayrollModel_updateStatus now payrollId (aggregate_spec ?c ?f (length ?items)) (Some ?c) (Some ?f) s"
    unfolding updatePayrollStats_controller_def Let_def st ..
  have r: "updatePayrollStats_webhook now payrollId s
           = PayrollModel_updateStatus now payrollId (aggregate_spec ?c ?f (length ?items)) (Some ?c) (Some ?f) s"
    unfolding updatePayrollStats_webhook_def Let_def st ..
  show ?thesis using w by (simp add: p c r)
qed

section \<open>The notification receiver: what a delivery writes\<close>


lemma updateStatus_frame [simp]:
  "payrolls (PayrollItemModel_updateStatus now i st tr em s) = payrolls s"
  "employees (PayrollItemModel_updateStatus now i st tr em s) = employees s"
  "payroll_items (PayrollItemModel_updateStatus now i st tr em s)
     = map (\<lambda>it. if id_i it = i then item_set now st tr em it else it) (payroll_items s)"
  by (simp_all add: PayrollItemModel_updateStatus_def)

lemma payroll_updateStatus_frame [simp]:
  "payroll_items (PayrollModel_updateStatus now i st pc fc s) = payroll_items s"
  "employees (PayrollModel_updateStatus now i st pc fc s) = employees s"
  by (simp_all add: PayrollModel_updateStatus_def)

lemma updatePayrollStats_frame [simp]:
  "payroll_items (updatePayrollStats_webhook now pid s) = payroll_items s"
  "employees (updatePayrollStats_webhook now pid s) = employees s"
  "payroll_items (updatePayrollStats_controller now pid s) = payroll_items s"
  "employees (updatePayrollStats_controller now pid s) = employees s"
  "payroll_items (updatePayrollStats_processor now pid s) = payroll_items s"
  "employees (updatePayrollStats_processor now pid s) = employees s"
  by (simp_all add: updatePayrollStats_webhook_def updatePayrollStats_controller_def
        updatePayrollStats_processor_def Let_def)

lemma item_set_fields [simp]:
  "id_i (item_set now st tr em it) = id_i it"
  "payroll_id (item_set now st tr em it) = payroll_id it"
  "employee_id (item_set now st tr em it) = employee_id it"
  "amount (item_set now st tr em it) = amount it"
  "status_i (item_set now st tr em it) = st"
  "transaction_reference (item_set now st tr em it) = (if truthy tr then tr else transaction_reference it)"
  "error_message (item_set now st tr em it) = (if truthy em then em else error_message it)"
  "processed_at_i (item_set now st tr em it)
     = (if st = COMPLETED \<or> st = FAILED then Some now else processed_at_i it)"
  by (simp_all add: item_set_def)

lemma webhook_write_cases:
  "webhook_write now req ed iid s = s \<or>
   webhook_write now req ed iid s
     = PayrollItemModel_updateStatus now iid COMPLETED (transactionReference ed) None s \<or>
   webhook_write now req ed iid s
     = PayrollItemModel_updateStatus now iid FAILED (transactionReference ed)
         (or_else (transactionDescription ed) (Some [])) s"
  unfolding webhook_write_def Let_def by simp

lemma webhook_item_items:
  "payroll_items (snd (webhook_item now req ed payrollId iid item s)) = payroll_items s \<or>
   (\<not> terminal (status_i item) \<and>
    payroll_items (snd (webhook_item now req ed payrollId iid item s))
       = payroll_items (webhook_write now req ed iid s))"
  unfolding webhook_item_def Let_def terminal_def
  by (simp split: option.splits)

lemma webhook_item_employees [simp]:
  "employees (snd (webhook_item now req ed payrollId iid item s)) = employees s"
  using webhook_write_cases [of now req ed iid s]
  unfolding webhook_item_def Let_def
  by (auto split: option.splits)

lemma webhook_items:
  "payroll_items (snd (webhook toNumber now req s)) = payroll_items s \<or>
   (\<exists>ed p iid item. webhook_parse toNumber req = Target ed p iid \<and>
       PayrollItemModel_findById iid s = Some item \<and> \<not> terminal (status_i item) \<and>
       payroll_items (snd (webhook toNumber now req s)) = payroll_items (webhook_write now req ed iid s))"
proof (cases "webhook_parse toNumber req")
  case (Reply r)
  then show ?thesis by (simp add: webhook_def)
next
  case (Target ed p iid)
  show ?thesis
  proof (cases "PayrollItemModel_findById iid s")
    case None
    with Target show ?thesis by (simp add: webhook_def)
  next
    case (Some item)
    with Target have "webhook toNumber now req s = webhook_item now req ed p iid item s"
      by (simp add: webhook_def)
    with webhook_item_items [of now req ed p iid item s] Target Some show ?thesis by auto
  qed
qed

lemma webhook_employees [simp]:
  "employees (snd (webhook toNumber now req s)) = employees s"
  by (simp add: webhook_def split: parsed.splits option.splits)


lemma same_id_same_row:
  "distinct (map id_i xs) \<Longrightarrow> x \<in> set xs \<Longrightarrow> y \<in> set xs \<Longrightarrow> id_i x = id_i y \<Longrightarrow> x = y"
  by (auto simp: distinct_map inj_on_def)








section \<open>Evaluating the handlers on the concrete store\<close>

text \<open>
  \<open>Number\<close> on the strings of the concrete references, and on strings that are not
  plain digit strings: a hexadecimal literal, white space, a sign, an exponent, a
  fraction, a literal between two doubles (\<open>2 ^ 53 + 1\<close>), and strings that are no number.
\<close>

lemma Number_js_decimal:
  "Number_js (Some ''27'') = Num 27"
  "Number_js (Some ''51'') = Num 51"
  "Number_js (Some ''99'') = Num 99"
  by code_simp+

lemma Number_js_forms:
  "Number_js (Some ''0x33'') = Num 51"
  "Number_js (Some '' 51'') = Num 51"
  "Number_js (Some ''+51'') = Num 51"
  "Number_js (Some ''5e1'') = Num 50"
  "Number_js (Some ''51.0'') = Num 51"
  "Number_js (Some ''51.5'') = Num (103 / 2)"
  "Number_js (Some []) = Num 0"
  "Number_js (Some ''51a'') = NaN"
  "Number_js (Some ''-0x33'') = NaN"
  "Number_js None = NaN"
  by code_simp+

lemma Number_js_rounds:
  "Number_js (Some ''9007199254740993'') = Num 9007199254740992"
  by code_simp

lemmas ex_defs = ex_employee_def ex_item_def ex_payroll_def ex_store_def ex_event_def
  ex_paid_store_def ex_mixed_store_def ex_fresh_store_def ex_sweep_store_def ex_gateway_def ex_tx_def
  ex_client_def ex_network_def ex_transfer_def ex_failure_event_def

lemmas webhook_defs = webhook_def webhook_parse_def webhook_item_def webhook_write_def
  Number_js_decimal integer_key_def element_def or_else_def
  PayrollItemModel_findById_def PayrollItemModel_findByPayrollId_def joins_employee_def
  PayrollItemModel_updateStatus_def PayrollModel_updateStatus_def
  updatePayrollStats_webhook_def count_status_def item_set_def payroll_set_def Let_def

lemma ex_delivery:
  "webhook Number_js 100 (ex_event ''SUCCESSFUL_DISBURSEMENT'' ''PAYROLL_27_51'') ex_store
     = ((200, ''OK''),
        \<lparr> payrolls = [(ex_payroll 27 COMPLETED)\<lparr> processed_count := 1, updated_at_p := 100, processed_at_p := Some 100 \<rparr>,
                       ex_payroll 99 PROCESSING],
          payroll_items = [(ex_item 51 27 COMPLETED (Some ''MFDS51''))\<lparr> processed_at_i := Some 100, updated_at_i := 100 \<rparr>,
                           ex_item 60 99 PROCESSING (Some ''MFDS60'')],
          employees = [ex_employee] \<rparr>)"
  by (simp add: ex_defs webhook_defs)


text \<open>
  Two items paid and one failed: each call site writes PARTIALLY_COMPLETED with the
  counts 2 and 1.
\<close>

theorem updatePayrollStats_is_aggregate_spec_witness:
  "aggregate_written 27 ex_mixed_store (updatePayrollStats_processor 10 27 ex_mixed_store) \<and>
   aggregate_written 27 ex_mixed_store (updatePayrollStats_controller 10 27 ex_mixed_store) \<and>
   aggregate_written 27 ex_mixed_store (updatePayrollStats_webhook 10 27 ex_mixed_store) \<and>
   map (\<lambda>p. (status_p p, processed_count p, failed_count p))
       (payrolls (updatePayrollStats_processor 10 27 ex_mixed_store)) = [(PARTIALLY_COMPLETED, 2, 1)] \<and>
   map (\<lambda>p. (status_p p, processed_count p, failed_count p))
       (payrolls (updatePayrollStats_controller 10 27 ex_mixed_store)) = [(PARTIALLY_COMPLETED, 2, 1)] \<and>
   map (\<lambda>p. (status_p p, processed_count p, failed_count p))
       (payrolls (updatePayrollStats_webhook 10 27 ex_mixed_store)) = [(PARTIALLY_COMPLETED, 2, 1)]"
proof -
  have "map (\<lambda>p. (status_p p, processed_count p, failed_count p))
          (payrolls (updatePayrollStats_processor 10 27 ex_mixed_store)) = [(PARTIALLY_COMPLETED, 2, 1)] \<and>
        map (\<lambda>p. (status_p p, processed_count p, failed_count p))
          (payrolls (updatePayrollStats_controller 10 27 ex_mixed_store)) = [(PARTIALLY_COMPLETED, 2, 1)] \<and>
        map (\<lambda>p. (status_p p, processed_count p, failed_count p))
          (payrolls (updatePayrollStats_webhook 10 27 ex_mixed_store)) = [(PARTIALLY_COMPLETED, 2, 1)]"
    by (simp add: ex_defs updatePayrollStats_processor_def updatePayrollStats_controller_def
          updatePayrollStats_webhook_def PayrollItemModel_findByPayrollId_def joins_employee_def
          count_status_def PayrollModel_updateStatus_def payroll_set_def Let_def)
  with updatePayrollStats_is_aggregate_spec [of 27 ex_mixed_store 10] show ?thesis by simp
qed

section \<open>Sparse updates of reference and error message\<close>

lemma updateStatus_sparse:
  "list_all2 (\<lambda>it it'. (\<not> truthy txRef \<longrightarrow> transaction_reference it' = transaction_reference it) \<and>
                         (\<not> truthy errMsg \<longrightarrow> error_message it' = error_message it) \<and>
                         (transaction_reference it \<noteq> None \<longrightarrow> transaction_reference it' \<noteq> None))
     (payroll_items s)
     (payroll_items (PayrollItemModel_updateStatus now i st txRef errMsg s))"
  by (cases txRef) (simp_all add: list_all2_map_self)

lemma webhook_empty_description:
  assumes "webhook_parse toNumber req = Target ed p iid" "\<not> truthy (transactionDescription ed)"
  shows "list_all2 (\<lambda>it it'. error_message it' = error_message it)
     (payroll_items s) (payroll_items (snd (webhook toNumber now req s)))"
proof -
  from webhook_items [of toNumber now req s] assms(1) consider
    (same) "payroll_items (snd (webhook toNumber now req s)) = payroll_items s"
  | (upd)
      "payroll_items (snd (webhook toNumber now req s)) = payroll_items (webhook_write now req ed iid s)"
    by auto
  then show ?thesis
  proof cases
    case same
    then show ?thesis by (simp add: list_all2_same)
  next
    case upd
    from webhook_write_cases [of now req ed iid s] assms(2) show ?thesis
      by (auto simp: upd list_all2_same list_all2_map_self or_else_def)
  qed
qed

section \<open>The batch's \<open>processed_at\<close>\<close>

text \<open>
  C5, as stated, fails: the batch of the paid store is recomputed at time 10 and
  becomes COMPLETED with \<open>processed_at = 10\<close>; a redundant recompute at time 20 writes
  \<open>processed_at = 20\<close> over it.
\<close>

theorem payroll_processed_at_overwritten:
  "map processed_at_p (payrolls (updatePayrollStats_processor 10 27 ex_paid_store)) = [Some 10] \<and>
   map status_p (payrolls (updatePayrollStats_processor 10 27 ex_paid_store)) = [COMPLETED] \<and>
   map processed_at_p (payrolls (updatePayrollStats_processor 20 27
                                   (updatePayrollStats_processor 10 27 ex_paid_store))) = [Some 20]"
  by (simp add: ex_defs updatePayrollStats_processor_def
        PayrollItemModel_findByPayrollId_def joins_employee_def count_status_def
        PayrollModel_updateStatus_def payroll_set_def Let_def)

text \<open>
  C5, amended. \<open>PayrollModel.updateStatus\<close> writes the batch's \<open>processed_at\<close> on every
  call whose new status is COMPLETED or PARTIALLY_COMPLETED, with the time of that
  call, whether or not the column was set before; a call with any other status, and
  a call for another batch, leaves the column as it is.
\<close>

theorem payroll_processed_at_rule:
  "list_all2 (\<lambda>p p'. processed_at_p p' =
                 (if id_p p = i \<and> (st = COMPLETED \<or> st = PARTIALLY_COMPLETED) then Some now
                  else processed_at_p p))
     (payrolls s) (payrolls (PayrollModel_updateStatus now i st processedCount failedCount s))"
  by (simp add: PayrollModel_updateStatus_def list_all2_map_self payroll_set_def)

text \<open>A move to FAILED leaves the batch's \<open>processed_at\<close>; a move to COMPLETED writes it.\<close>

theorem payroll_processed_at_rule_witness:
  "list_all2 (\<lambda>p p'. processed_at_p p' = processed_at_p p)
     (payrolls ex_paid_store) (payrolls (PayrollModel_updateStatus 10 27 FAILED None None ex_paid_store)) \<and>
   map processed_at_p (payrolls (PayrollModel_updateStatus 10 27 FAILED None None ex_paid_store)) = [None] \<and>
   map processed_at_p (payrolls (PayrollModel_updateStatus 10 27 COMPLETED None None ex_paid_store)) = [Some 10]"
proof -
  have "map processed_at_p (payrolls (PayrollModel_updateStatus 10 27 FAILED None None ex_paid_store)) = [None] \<and>
        map processed_at_p (payrolls (PayrollModel_updateStatus 10 27 COMPLETED None None ex_paid_store)) = [Some 10]"
    by (simp add: ex_defs PayrollModel_updateStatus_def payroll_set_def)
  with payroll_processed_at_rule [of 27 FAILED 10 ex_paid_store None None] show ?thesis by simp
qed

section \<open>Events the receiver should not have trusted\<close>

text \<open>
  C2. The request carries no \<open>monnify-signature\<close> header, so \<open>verifySignature\<close> is false
  for it whatever the hash and the secret; the handler, which never calls
  \<open>verifySignature\<close>, answers 200 \<open>OK\<close> and moves item 51 from PROCESSING to COMPLETED.
\<close>

theorem webhook_accepts_unsigned_event:
  "monnify_signature (ex_event ''SUCCESSFUL_DISBURSEMENT'' ''PAYROLL_27_51'') = None \<and>
   verifySignature hmac_sha512_hex stringify secret (ex_event ''SUCCESSFUL_DISBURSEMENT'' ''PAYROLL_27_51'') = False \<and>
   fst (webhook Number_js 100 (ex_event ''SUCCESSFUL_DISBURSEMENT'' ''PAYROLL_27_51'') ex_store) = (200, ''OK'') \<and>
   map status_i (payroll_items ex_store) = [PROCESSING, PROCESSING] \<and>
   map status_i (payroll_items (snd (webhook Number_js 100
        (ex_event ''SUCCESSFUL_DISBURSEMENT'' ''PAYROLL_27_51'') ex_store))) = [COMPLETED, PROCESSING]"
  by (simp add: ex_delivery verifySignature_def) (simp add: ex_defs)

text \<open>
  C6. Item 51 belongs to batch 27; the event's reference names batch 99. The handler
  completes item 51 and recomputes batch 99 (its row is rewritten at time 100), while
  batch 27, which owns the item, keeps status PROCESSING and a processed count of 0;
  the recompute of batch 27, which did not run, would have written COMPLETED and 1.
\<close>

theorem webhook_recomputes_named_batch:
  "map (\<lambda>it. (id_i it, payroll_id it, status_i it))
       (payroll_items (snd (webhook Number_js 100
          (ex_event ''SUCCESSFUL_DISBURSEMENT'' ''PAYROLL_99_51'') ex_store)))
     = [(51, 27, COMPLETED), (60, 99, PROCESSING)] \<and>
   map (\<lambda>p. (id_p p, status_p p, processed_count p, updated_at_p p))
       (payrolls (snd (webhook Number_js 100
          (ex_event ''SUCCESSFUL_DISBURSEMENT'' ''PAYROLL_99_51'') ex_store)))
     = [(27, PROCESSING, 0, 1), (99, PROCESSING, 0, 100)] \<and>
   map (\<lambda>p. (id_p p, status_p p, processed_count p, updated_at_p p))
       (payrolls (updatePayrollStats_webhook 100 27 (snd (webhook Number_js 100
          (ex_event ''SUCCESSFUL_DISBURSEMENT'' ''PAYROLL_99_51'') ex_store))))
     = [(27, COMPLETED, 1, 100), (99, PROCESSING, 0, 100)]"
  by (simp add: ex_defs webhook_defs)

section \<open>The reconciliation sweep\<close>

lemma reconcile_row_id [simp]: "id_i (reconcile_row gw now it) = id_i it"
  by (simp add: reconcile_row_def split: decision.splits)

lemma reconcile_item_counters:
  "updated (reconcile_item gw now x w) = updated w + (if is_update (reconcile_decision gw x) then 1 else 0)"
  "errors_n (reconcile_item gw now x w) = errors_n w + (if reconcile_decision gw x = Errored then 1 else 0)"
  "lookups (reconcile_item gw now x w)
     = lookups w @ (case transaction_reference x of None \<Rightarrow> [] | Some r \<Rightarrow> [r])"
  "payrolls (store (reconcile_item gw now x w)) = payrolls (store w)"
  "employees (store (reconcile_item gw now x w)) = employees (store w)"
  by (simp_all add: reconcile_item_def is_update_def Let_def split: decision.splits)

lemma fold_reconcile_counters:
  "updated (fold (reconcile_item gw now) xs w)
     = updated w + length (filter (\<lambda>x. is_update (reconcile_decision gw x)) xs)"
  "errors_n (fold (reconcile_item gw now) xs w)
     = errors_n w + length (filter (\<lambda>x. reconcile_decision gw x = Errored) xs)"
  "lookups (fold (reconcile_item gw now) xs w)
     = lookups w @ concat (map (\<lambda>x. case transaction_reference x of None \<Rightarrow> [] | Some r \<Rightarrow> [r]) xs)"
  "payrolls (store (fold (reconcile_item gw now) xs w)) = payrolls (store w)"
  "employees (store (fold (reconcile_item gw now) xs w)) = employees (store w)"
  by (induction xs arbitrary: w) (simp_all add: reconcile_item_counters)

lemma reconcile_item_items:
  assumes "distinct (map id_i (payroll_items (store w)))" "x \<in> set (payroll_items (store w))"
  shows "payroll_items (store (reconcile_item gw now x w))
           = map (\<lambda>row. if id_i row = id_i x then reconcile_row gw now row else row)
                 (payroll_items (store w))"
proof -
  have same: "row = x" if "row \<in> set (payroll_items (store w))" "id_i row = id_i x" for row
    using same_id_same_row [OF assms(1) that(1) assms(2) that(2)] .
  have pt: "(if id_i row = id_i x then item_set now st (transaction_reference x) em row else row)
            = (if id_i row = id_i x then reconcile_row gw now row else row)"
    if "row \<in> set (payroll_items (store w))" "reconcile_decision gw x = Update st em" for row st em
  proof (cases "id_i row = id_i x")
    case True
    with same [OF that(1)] have "row = x" by simp
    with that(2) show ?thesis by (simp add: reconcile_row_def)
  next
    case False
    then show ?thesis by simp
  qed
  have keep: "(if id_i row = id_i x then reconcile_row gw now row else row) = row"
    if "row \<in> set (payroll_items (store w))" "\<not> is_update (reconcile_decision gw x)" for row
  proof (cases "id_i row = id_i x")
    case True
    with same [OF that(1)] have "row = x" by simp
    with that(2) show ?thesis by (simp add: reconcile_row_def is_update_def split: decision.splits)
  next
    case False
    then show ?thesis by simp
  qed
  show ?thesis
  proof (cases "reconcile_decision gw x")
    case (Update st em)
    have "map (\<lambda>row. if id_i row = id_i x then item_set now st (transaction_reference x) em row else row)
            (payroll_items (store w))
          = map (\<lambda>row. if id_i row = id_i x then reconcile_row gw now row else row)
            (payroll_items (store w))"
      by (rule map_cong [OF refl]) (rule pt [OF _ Update])
    with Update show ?thesis
      by (simp add: reconcile_item_def Let_def)
  next
    case Errored
    then have "map (\<lambda>row. if id_i row = id_i x then reconcile_row gw now row else row)
                 (payroll_items (store w)) = payroll_items (store w)"
      using keep by (intro map_idI) (simp add: is_update_def)
    with Errored show ?thesis
      by (simp add: reconcile_item_def Let_def)
  next
    case Leave
    then have "map (\<lambda>row. if id_i row = id_i x then reconcile_row gw now row else row)
                 (payroll_items (store w)) = payroll_items (store w)"
      using keep by (intro map_idI) (simp add: is_update_def)
    with Leave show ?thesis
      by (simp add: reconcile_item_def Let_def)
  qed
qed

lemma fold_reconcile_items:
  assumes "distinct (map id_i (payroll_items (store w)))"
    and "set xs \<subseteq> set (payroll_items (store w))"
    and "distinct (map id_i xs)"
  shows "payroll_items (store (fold (reconcile_item gw now) xs w))
           = map (\<lambda>row. if id_i row \<in> id_i ` set xs then reconcile_row gw now row else row)
                 (payroll_items (store w))"
  using assms
proof (induction xs arbitrary: w)
  case Nil
  then show ?case by simp
next
  case (Cons x xs)
  let ?T = "payroll_items (store w)"
  let ?w' = "reconcile_item gw now x w"
  have x: "x \<in> set ?T" using Cons.prems(2) by simp
  have T': "payroll_items (store ?w')
              = map (\<lambda>row. if id_i row = id_i x then reconcile_row gw now row else row) ?T"
    by (rule reconcile_item_items [OF Cons.prems(1) x])
  have ids: "map id_i (payroll_items (store ?w')) = map id_i ?T"
    by (simp add: T' comp_def)
  have d': "distinct (map id_i (payroll_items (store ?w')))"
    using Cons.prems(1) ids by simp
  have notx: "id_i y \<noteq> id_i x" if "y \<in> set xs" for y
    using Cons.prems(3) that by (auto simp: image_iff)
  have sub': "set xs \<subseteq> set (payroll_items (store ?w'))"
  proof
    fix y assume y: "y \<in> set xs"
    then have yT: "y \<in> set ?T" using Cons.prems(2) by auto
    show "y \<in> set (payroll_items (store ?w'))"
      unfolding T' set_map image_iff using yT notx [OF y]
      by (intro bexI [of _ y]) simp_all
  qed
  have dx: "distinct (map id_i xs)" using Cons.prems(3) by simp
  have "payroll_items (store (fold (reconcile_item gw now) (x # xs) w))
          = map (\<lambda>row. if id_i row \<in> id_i ` set xs then reconcile_row gw now row else row)
                (payroll_items (store ?w'))"
    using Cons.IH [OF d' sub' dx] by simp
  also have "\<dots> = map (\<lambda>row. if id_i row \<in> id_i ` set (x # xs) then reconcile_row gw now row else row) ?T"
    unfolding T' by (auto simp: comp_def dest: notx)
  finally show ?case .
qed


lemma store_with_items:
  "payrolls t = payrolls s \<Longrightarrow> employees t = employees s \<Longrightarrow>
     (t::Store) = s\<lparr> payroll_items := payroll_items t \<rparr>"
  by (cases s, cases t) simp

lemma itemsToReconcile_filter:
  "itemsToReconcile pid s
     = filter (\<lambda>row. payroll_id row = pid \<and> joins_employee s row \<and> truthy (transaction_reference row))
              (payroll_items s)"
  by (auto simp: itemsToReconcile_def PayrollItemModel_findByPayrollId_def intro: filter_cong)

lemma in_filter_by_id:
  assumes "distinct (map id_i T)" "row \<in> set T"
  shows "id_i row \<in> id_i ` set (filter Q T) \<longleftrightarrow> Q row"
proof
  assume "id_i row \<in> id_i ` set (filter Q T)"
  then obtain y where y: "y \<in> set T" "Q y" "id_i y = id_i row" by auto
  with same_id_same_row [OF assms(1) y(1) assms(2)] show "Q row" by simp
next
  assume "Q row"
  with assms(2) show "id_i row \<in> id_i ` set (filter Q T)" by auto
qed

lemma sweep_items:
  assumes d: "distinct (map id_i (payroll_items s))"
  shows "payroll_items (store (fold (reconcile_item gw now) (itemsToReconcile pid s)
            \<lparr> store = s, updated = 0, errors_n = 0, lookups = [] \<rparr>))
         = map (\<lambda>row. if payroll_id row = pid \<and> joins_employee s row \<and> truthy (transaction_reference row)
                       then reconcile_row gw now row else row)
               (payroll_items s)"
proof -
  let ?Q = "\<lambda>row. payroll_id row = pid \<and> joins_employee s row \<and> truthy (transaction_reference row)"
  let ?w = "\<lparr> store = s, updated = 0, errors_n = 0, lookups = [] \<rparr>"
  have R: "itemsToReconcile pid s = filter ?Q (payroll_items s)"
    by (rule itemsToReconcile_filter)
  have "payroll_items (store (fold (reconcile_item gw now) (filter ?Q (payroll_items s)) ?w))
          = map (\<lambda>row. if id_i row \<in> id_i ` set (filter ?Q (payroll_items s))
                        then reconcile_row gw now row else row)
                (payroll_items (store ?w))"
    using d by (intro fold_reconcile_items) (simp_all add: distinct_map_filter)
  also have "\<dots> = map (\<lambda>row. if ?Q row then reconcile_row gw now row else row) (payroll_items s)"
    using in_filter_by_id [OF d, of _ ?Q] by (intro map_cong) simp_all
  finally show ?thesis unfolding R .
qed





lemma reconcile_row_status:
  "status_i (reconcile_row gw now it) \<noteq> status_i it \<longleftrightarrow> is_update (reconcile_decision gw it)"
  unfolding reconcile_row_def reconcile_decision_def is_update_def
  by (auto split: option.splits outcome.splits)

lemma errored_iff_lookup_fails:
  "reconcile_decision gw it = Errored \<longleftrightarrow> lookup_fails gw it"
  unfolding reconcile_decision_def lookup_fails_def
  by (auto split: option.splits outcome.splits)

lemma lookups_are_references:
  "\<forall>x \<in> set xs. transaction_reference x \<noteq> None \<Longrightarrow>
   map Some (concat (map (\<lambda>x. case transaction_reference x of None \<Rightarrow> [] | Some r \<Rightarrow> [r]) xs))
     = map transaction_reference xs"
  by (induction xs) auto

lemmas reconcile_defs = reconcile_route_def reconcilePayroll_def itemsToReconcile_def reconcile_item_def
  reconcile_decision_def payment_of_def failure_text_def Number_js_decimal integer_key_def or_else_def
  PayrollModel_findById_def PayrollItemModel_findByPayrollId_def joins_employee_def
  PayrollItemModel_updateStatus_def PayrollModel_updateStatus_def
  updatePayrollStats_controller_def count_status_def item_set_def payroll_set_def Let_def




text \<open>
  A batch none of whose items holds a reference (the batch just created): the route
  answers \<open>reconciled: 0\<close> alone, with no \<open>errors\<close> and no \<open>total\<close>, and returns before
  the loop and before the recompute, which would have moved the batch to PROCESSING.
\<close>

lemma reconcile_without_references:
  "PayrollModel_findById 27 ex_fresh_store = Some (ex_payroll 27 PENDING) \<and>
   reconcile_route ex_gateway 50 ''27'' ex_fresh_store = (NoItemsToReconcile, ex_fresh_store, []) \<and>
   map status_p (payrolls ex_fresh_store) = [PENDING] \<and>
   map status_p (payrolls (updatePayrollStats_controller 50 27 ex_fresh_store)) = [PROCESSING]"
  by (simp add: ex_defs reconcile_defs)

text \<open>
  The loop of \<open>reconcilePayroll\<close>, with item ids as the primary key. Every item holding
  a reference is looked up, in order, whether or not an earlier lookup threw; each
  gets the row its own lookup decides; \<open>updated\<close> counts the rows whose status changed,
  \<open>errors\<close> the items whose lookup threw; the batch rows are not touched.
\<close>

lemma sweep_counts:
  assumes d: "distinct (map id_i (payroll_items s))"
  shows "updated (fold (reconcile_item gw now) (itemsToReconcile pid s)
                    \<lparr> store = s, updated = 0, errors_n = 0, lookups = [] \<rparr>)
           = status_changes (payroll_items s)
               (payroll_items (store (fold (reconcile_item gw now) (itemsToReconcile pid s)
                    \<lparr> store = s, updated = 0, errors_n = 0, lookups = [] \<rparr>)))"
    and "errors_n (fold (reconcile_item gw now) (itemsToReconcile pid s)
                    \<lparr> store = s, updated = 0, errors_n = 0, lookups = [] \<rparr>)
           = length (filter (lookup_fails gw) (itemsToReconcile pid s))"
    and "map Some (lookups (fold (reconcile_item gw now) (itemsToReconcile pid s)
                    \<lparr> store = s, updated = 0, errors_n = 0, lookups = [] \<rparr>))
           = map transaction_reference (itemsToReconcile pid s)"
    and "payroll_items (store (fold (reconcile_item gw now) (itemsToReconcile pid s)
                    \<lparr> store = s, updated = 0, errors_n = 0, lookups = [] \<rparr>))
           = map (\<lambda>row. if row \<in> set (itemsToReconcile pid s) then reconcile_row gw now row else row)
                 (payroll_items s)"
    and "payrolls (store (fold (reconcile_item gw now) (itemsToReconcile pid s)
                    \<lparr> store = s, updated = 0, errors_n = 0, lookups = [] \<rparr>))
           = payrolls s"
proof -
  let ?R = "itemsToReconcile pid s"
  let ?Q = "\<lambda>row. payroll_id row = pid \<and> joins_employee s row \<and> truthy (transaction_reference row)"
  let ?w = "fold (reconcile_item gw now) ?R \<lparr> store = s, updated = 0, errors_n = 0, lookups = [] \<rparr>"
  have R: "?R = filter ?Q (payroll_items s)" by (rule itemsToReconcile_filter)
  have items: "payroll_items (store ?w)
                 = map (\<lambda>row. if ?Q row then reconcile_row gw now row else row) (payroll_items s)"
    by (rule sweep_items [OF d])
  have "status_changes (payroll_items s) (payroll_items (store ?w))
          = length (filter (\<lambda>row. ?Q row \<and> is_update (reconcile_decision gw row)) (payroll_items s))"
    unfolding items status_changes_map
    by (rule arg_cong [where f = length], rule filter_cong) (auto simp: reconcile_row_status)
  also have "\<dots> = length (filter (\<lambda>x. is_update (reconcile_decision gw x)) ?R)"
    unfolding R by (simp add: conj_commute)
  finally show "updated ?w = status_changes (payroll_items s) (payroll_items (store ?w))"
    by (simp add: fold_reconcile_counters)
  show "errors_n ?w = length (filter (lookup_fails gw) ?R)"
    by (simp add: fold_reconcile_counters errored_iff_lookup_fails)
  have "\<forall>x \<in> set ?R. transaction_reference x \<noteq> None"
    by (auto simp: itemsToReconcile_def truthy_def split: option.splits)
  then show "map Some (lookups ?w) = map transaction_reference ?R"
    by (simp add: fold_reconcile_counters lookups_are_references)
  have "map (\<lambda>row. if ?Q row then reconcile_row gw now row else row) (payroll_items s)
          = map (\<lambda>row. if row \<in> set ?R then reconcile_row gw now row else row) (payroll_items s)"
    by (rule map_cong) (simp_all add: R)
  with items
  show "payroll_items (store ?w)
          = map (\<lambda>row. if row \<in> set ?R then reconcile_row gw now row else row) (payroll_items s)"
    by simp
  show "payrolls (store ?w) = payrolls s"
    by (simp add: fold_reconcile_counters)
qed

text \<open>
  The route on an existing batch with at least one item to examine: the loop runs to
  its end, then \<open>this.updatePayrollStats\<close> throws. The response is 500, the store is the
  one the loop left, and no batch row has been written.
\<close>

lemma reconcile_route_throws:
  assumes k: "integer_key (Number_js (Some id_param)) = Some pid"
    and p: "PayrollModel_findById pid s = Some payroll"
    and ne: "itemsToReconcile pid s \<noteq> []"
  shows "reconcile_route gw now id_param s
           = (ServerError500,
              store (fold (reconcile_item gw now) (itemsToReconcile pid s)
                       \<lparr> store = s, updated = 0, errors_n = 0, lookups = [] \<rparr>),
              lookups (fold (reconcile_item gw now) (itemsToReconcile pid s)
                       \<lparr> store = s, updated = 0, errors_n = 0, lookups = [] \<rparr>))"
    and "payrolls (fst (snd (reconcile_route gw now id_param s))) = payrolls s"
proof -
  show r: "reconcile_route gw now id_param s
           = (ServerError500,
              store (fold (reconcile_item gw now) (itemsToReconcile pid s)
                       \<lparr> store = s, updated = 0, errors_n = 0, lookups = [] \<rparr>),
              lookups (fold (reconcile_item gw now) (itemsToReconcile pid s)
                       \<lparr> store = s, updated = 0, errors_n = 0, lookups = [] \<rparr>))"
    using k p ne by (simp add: reconcile_route_def reconcilePayroll_def Let_def)
  show "payrolls (fst (snd (reconcile_route gw now id_param s))) = payrolls s"
    unfolding r by (simp add: fold_reconcile_counters)
qed

text \<open>
  C8. Batch 27 is PROCESSING with a processed count of 0; its items 51 and 52 hold a
  reference, item 53 holds none. The gateway's lookup throws for item 51 and reports
  PAID for item 52. The route, \<open>POST /27/reconcile\<close>, looks both references up and
  writes item 52 as COMPLETED: the failure of the first lookup does not stop the
  sweep. Then \<open>this.updatePayrollStats\<close> throws, the router having called the handler
  on no object: the response is HTTP 500 and not the summary, and the batch row is the
  one from before the sweep, although an item of the batch is now COMPLETED. Called on
  the class, the same method answers \<open>reconciled: 1\<close>, \<open>errors: 1\<close>, \<open>total: 2\<close> and
  recomputes the batch to PARTIALLY_COMPLETED with a processed count of 1.
\<close>

theorem reconcile_route_answers_500:
  "map (\<lambda>it. (id_i it, status_i it, transaction_reference it)) (payroll_items ex_sweep_store)
     = [(51, PROCESSING, Some ''MFDS51''), (52, PROCESSING, Some ''MFDS52''), (53, PENDING, None)] \<and>
   map (\<lambda>p. (id_p p, status_p p, processed_count p, updated_at_p p)) (payrolls ex_sweep_store)
     = [(27, PROCESSING, 0, 1)] \<and>
   map (lookup_fails ex_gateway) (itemsToReconcile 27 ex_sweep_store) = [True, False] \<and>
   fst (reconcile_route ex_gateway 50 ''27'' ex_sweep_store) = ServerError500 \<and>
   snd (snd (reconcile_route ex_gateway 50 ''27'' ex_sweep_store)) = [''MFDS51'', ''MFDS52''] \<and>
   map (\<lambda>it. (id_i it, status_i it))
       (payroll_items (fst (snd (reconcile_route ex_gateway 50 ''27'' ex_sweep_store))))
     = [(51, PROCESSING), (52, COMPLETED), (53, PENDING)] \<and>
   payrolls (fst (snd (reconcile_route ex_gateway 50 ''27'' ex_sweep_store))) = payrolls ex_sweep_store \<and>
   fst (reconcilePayroll OnClass ex_gateway 50 (Number_js (Some ''27'')) ex_sweep_store) = Reconciled 1 1 2 \<and>
   map (\<lambda>p. (id_p p, status_p p, processed_count p, updated_at_p p))
       (payrolls (fst (snd (reconcilePayroll OnClass ex_gateway 50 (Number_js (Some ''27'')) ex_sweep_store))))
     = [(27, PARTIALLY_COMPLETED, 1, 50)]"
  by (simp add: ex_defs reconcile_defs lookup_fails_def)

section \<open>Bulk submission: validation before the batch request\<close>

lemma validate_transfers_None:
  "validate_transfers ts = None \<longleftrightarrow> (\<forall>t \<in> set ts. \<not> fails_validation t)"
  by (induction ts) (auto simp: fails_validation_def offending_def)

lemma validate_transfers_Some:
  "validate_transfers ts = Some msg \<Longrightarrow>
     \<exists>t. find fails_validation ts = Some t \<and> names_transfer msg t"
  by (induction ts) (auto simp: fails_validation_def offending_def names_transfer_def split: if_splits)

lemma ensureAuthenticated_cases:
  "ensureAuthenticated net clock g = (r, g') \<Longrightarrow>
     contractCode (client g') = contractCode (client g) \<and>
     calls g' = calls g @ (if token_stale clock g then [AuthLogin] else []) \<and>
     r = (if token_stale clock g \<and> login_fails net then Some ''Failed to authenticate with Monnify''
          else None)"
  unfolding ensureAuthenticated_def authenticate_def login_fails_def
  by (auto split: if_splits outcome.splits)

lemma batch_posts_simps [simp]:
  "batch_posts [] = []"
  "batch_posts (cs @ ds) = batch_posts cs @ batch_posts ds"
  "batch_posts (AuthLogin # cs) = batch_posts cs"
  "batch_posts (BatchPost r # cs) = r # batch_posts cs"
  by (simp_all add: batch_posts_def)

lemmas client_defs = initiateBulkTransfer_def ensureAuthenticated_def authenticate_def token_stale_def
  client_post_def request_body_def invalid_amount_def batch_posts_def

text \<open>
  C9, as stated, fails: the client holds no token, so \<open>initiateBulkTransfer\<close> sends the
  login request before it validates anything; the transfer with amount 0 is then
  rejected, after one network call. When that login fails, the error thrown is the
  authentication error, which names no transfer.
\<close>

theorem bulk_validation_after_login:
  "offending (ex_transfer (Num 0)) \<and>
   calls ex_client = [] \<and>
   fst (initiateBulkTransfer ex_network 1000 [ex_transfer (Num 0)] ex_client)
     = Inl ''Invalid amount for transfer: PAYROLL_27_51'' \<and>
   calls (snd (initiateBulkTransfer ex_network 1000 [ex_transfer (Num 0)] ex_client)) = [AuthLogin] \<and>
   fst (initiateBulkTransfer (ex_network\<lparr> login_reply := Throws ''ECONNREFUSED'' \<rparr>) 1000
          [ex_transfer (Num 0)] ex_client)
     = Inl ''Failed to authenticate with Monnify''"
  by (simp add: ex_defs client_defs offending_def)

text \<open>
  C9, amended. For a transfer list with a transfer of non-positive amount, empty
  account number or empty bank code, \<open>initiateBulkTransfer\<close> throws, and the only request
  it can have sent is the login request, sent exactly when the cached token is missing
  or expired. If that login fails the error is the authentication error; otherwise,
  if the contract code is empty, it is the configuration error; otherwise its message
  names the reference of the first transfer in the list that fails one of the four
  checks (amount, account number, bank code, recipient name). The batch request goes
  out only when every transfer passes all four checks.
\<close>

theorem bulk_validation:
  "((\<exists>t \<in> set transfers. offending t) \<longrightarrow>
      (\<exists>msg g'. initiateBulkTransfer net clock transfers g = (Inl msg, g') \<and>
         calls g' = calls g @ (if token_stale clock g then [AuthLogin] else []) \<and>
         (if token_stale clock g \<and> login_fails net then msg = ''Failed to authenticate with Monnify''
          else if contractCode (client g) = [] then msg = ''Monnify contract code is not configured''
          else (\<exists>t. find fails_validation transfers = Some t \<and> names_transfer msg t)))) \<and>
   (batch_posts (calls (snd (initiateBulkTransfer net clock transfers g))) \<noteq> batch_posts (calls g) \<longrightarrow>
      (\<forall>t \<in> set transfers. \<not> fails_validation t))"
proof -
  obtain r g1 where ea: "ensureAuthenticated net clock g = (r, g1)"
    by (cases "ensureAuthenticated net clock g")
  note c = ensureAuthenticated_cases [OF ea]
  have first: "\<exists>msg g'. initiateBulkTransfer net clock transfers g = (Inl msg, g') \<and>
         calls g' = calls g @ (if token_stale clock g then [AuthLogin] else []) \<and>
         (if token_stale clock g \<and> login_fails net then msg = ''Failed to authenticate with Monnify''
          else if contractCode (client g) = [] then msg = ''Monnify contract code is not configured''
          else (\<exists>t. find fails_validation transfers = Some t \<and> names_transfer msg t))"
    if bad: "\<exists>t \<in> set transfers. offending t"
  proof -
    from bad have ne: "transfers \<noteq> []" by auto
    from bad have "validate_transfers transfers \<noteq> None"
      by (auto simp: validate_transfers_None fails_validation_def)
    then obtain msg where v: "validate_transfers transfers = Some msg" by auto
    from validate_transfers_Some [OF v] ne v ea c show ?thesis
      by (auto simp: initiateBulkTransfer_def split: if_splits)
  qed
  have second: "\<forall>t \<in> set transfers. \<not> fails_validation t"
    if sent: "batch_posts (calls (snd (initiateBulkTransfer net clock transfers g))) \<noteq> batch_posts (calls g)"
  proof (rule ccontr)
    assume "\<not> (\<forall>t \<in> set transfers. \<not> fails_validation t)"
    then have "validate_transfers transfers \<noteq> None"
      by (simp add: validate_transfers_None)
    then obtain msg where v: "validate_transfers transfers = Some msg" by auto
    with ea c sent show False
      by (auto simp: initiateBulkTransfer_def split: if_splits)
  qed
  from first second show ?thesis by blast
qed

text \<open>One rejected list and one accepted list, on a client without a token.\<close>

theorem bulk_validation_witness:
  "(\<exists>t \<in> set [ex_transfer (Num 0)]. offending t) \<and>
   (\<exists>msg g'. initiateBulkTransfer ex_network 1000 [ex_transfer (Num 0)] ex_client = (Inl msg, g') \<and>
      calls g' = calls ex_client @ (if token_stale 1000 ex_client then [AuthLogin] else []) \<and>
      (if token_stale 1000 ex_client \<and> login_fails ex_network
       then msg = ''Failed to authenticate with Monnify''
       else if contractCode (client ex_client) = [] then msg = ''Monnify contract code is not configured''
       else (\<exists>t. find fails_validation [ex_transfer (Num 0)] = Some t \<and> names_transfer msg t))) \<and>
   batch_posts (calls (snd (initiateBulkTransfer ex_network 1000 [ex_transfer (Num 100)] ex_client)))
     \<noteq> batch_posts (calls ex_client) \<and>
   list_all (\<lambda>t. \<not> fails_validation t) [ex_transfer (Num 100)]"
proof -
  have bad: "\<exists>t \<in> set [ex_transfer (Num 0)]. offending t"
    by (simp add: ex_defs offending_def invalid_amount_def)
  have sent: "batch_posts (calls (snd (initiateBulkTransfer ex_network 1000 [ex_transfer (Num 100)] ex_client)))
                \<noteq> batch_posts (calls ex_client)"
    by (simp add: ex_defs client_defs)
  from bulk_validation [of "[ex_transfer (Num 0)]" ex_network 1000 ex_client] bad
  have one: "\<exists>msg g'. initiateBulkTransfer ex_network 1000 [ex_transfer (Num 0)] ex_client = (Inl msg, g') \<and>
      calls g' = calls ex_client @ (if token_stale 1000 ex_client then [AuthLogin] else []) \<and>
      (if token_stale 1000 ex_client \<and> login_fails ex_network
       then msg = ''Failed to authenticate with Monnify''
       else if contractCode (client ex_client) = [] then msg = ''Monnify contract code is not configured''
       else (\<exists>t. find fails_validation [ex_transfer (Num 0)] = Some t \<and> names_transfer msg t))"
    by blast
  from bulk_validation [of "[ex_transfer (Num 100)]" ex_network 1000 ex_client] sent
  have two: "list_all (\<lambda>t. \<not> fails_validation t) [ex_transfer (Num 100)]"
    by (simp add: list_all_iff)
  from bad one sent two show ?thesis by (intro conjI)
qed

section \<open>Batch processing: what is submitted\<close>

lemma EmployeeModel_findById_frame:
  "employees s' = employees s \<Longrightarrow> EmployeeModel_findById e s' = EmployeeModel_findById e s"
  by (simp add: EmployeeModel_findById_def)

lemma build_transfers_result:
  "build_transfers now pid items s acc = (None, s2, ts) \<Longrightarrow>
     \<exists>new. ts = acc @ new \<and>
           list_all2 (\<lambda>i t. \<exists>e. EmployeeModel_findById (employee_id i) s = Some e \<and> t = transfer_of pid i e)
                     items new"
proof (induction items arbitrary: s acc)
  case Nil
  then show ?case by simp
next
  case (Cons item rest)
  from Cons.prems obtain e where e: "EmployeeModel_findById (employee_id item) s = Some e"
    by (cases "EmployeeModel_findById (employee_id item) s") auto
  let ?s1 = "PayrollItemModel_updateStatus now (id_i item) PROCESSING None None s"
  from Cons.prems e have "build_transfers now pid rest ?s1 (acc @ [transfer_of pid item e]) = (None, s2, ts)"
    by simp
  from Cons.IH [OF this] obtain new where
    n: "ts = (acc @ [transfer_of pid item e]) @ new"
    and l: "list_all2 (\<lambda>i t. \<exists>e. EmployeeModel_findById (employee_id i) ?s1 = Some e \<and> t = transfer_of pid i e)
              rest new"
    by blast
  have fr: "\<And>i. EmployeeModel_findById (employee_id i) ?s1 = EmployeeModel_findById (employee_id i) s"
    by (rule EmployeeModel_findById_frame) simp
  have l': "list_all2 (\<lambda>i t. \<exists>e. EmployeeModel_findById (employee_id i) s = Some e \<and> t = transfer_of pid i e)
              rest new"
    using l unfolding fr .
  show ?case
    by (rule exI [of _ "transfer_of pid item e # new"]) (simp add: n e l')
qed

lemma build_transfers_succeeds:
  "\<forall>i \<in> set items. EmployeeModel_findById (employee_id i) s \<noteq> None \<Longrightarrow>
     fst (build_transfers now pid items s acc) = None"
proof (induction items arbitrary: s acc)
  case Nil
  then show ?case by simp
next
  case (Cons item rest)
  let ?s1 = "PayrollItemModel_updateStatus now (id_i item) PROCESSING None None s"
  have fr: "\<And>i. EmployeeModel_findById (employee_id i) ?s1 = EmployeeModel_findById (employee_id i) s"
    by (rule EmployeeModel_findById_frame) simp
  from Cons.prems have "\<forall>i \<in> set rest. EmployeeModel_findById (employee_id i) ?s1 \<noteq> None"
    unfolding fr by simp
  from Cons.IH [OF this] Cons.prems show ?case by (auto split: option.splits)
qed

lemma request_references [simp]:
  "map reference_d (transactionList (request_body clock c ts)) = map reference_t ts"
  "map amount_d (transactionList (request_body clock c ts)) = map amount_t ts"
  by (simp_all add: request_body_def comp_def)

lemma initiateBulkTransfer_posts:
  "batch_posts (calls (snd (initiateBulkTransfer net clock ts g))) = batch_posts (calls g) \<or>
   (\<exists>c. batch_posts (calls (snd (initiateBulkTransfer net clock ts g)))
          = batch_posts (calls g) @ [request_body clock c ts])"
proof -
  obtain r g1 where ea: "ensureAuthenticated net clock g = (r, g1)"
    by (cases "ensureAuthenticated net clock g")
  obtain r2 g2 where ea2: "ensureAuthenticated net clock g1 = (r2, g2)"
    by (cases "ensureAuthenticated net clock g1")
  note c = ensureAuthenticated_cases [OF ea] ensureAuthenticated_cases [OF ea2]
  show ?thesis
    using ea ea2 c
    by (auto simp: initiateBulkTransfer_def client_post_def split: option.splits outcome.splits if_splits)
qed

lemma payable_is_eligible:
  assumes "references_wellformed items"
  shows "payable items = filter eligible items"
  unfolding payable_def
proof (rule filter_cong [OF refl])
  fix i assume "i \<in> set items"
  with assms have "transaction_reference i \<noteq> Some []"
    by (simp add: references_wellformed_def list_all_iff)
  then have "\<not> truthy (transaction_reference i) \<longleftrightarrow> transaction_reference i = None"
    by (cases "transaction_reference i") simp_all
  then show "(status_i i = PENDING \<or> status_i i = PROCESSING \<and> \<not> truthy (transaction_reference i)) = eligible i"
    by (simp add: eligible_def)
qed

lemma wellformed_findByPayrollId:
  "references_wellformed (payroll_items s) \<Longrightarrow> references_wellformed (PayrollItemModel_findByPayrollId pid s)"
  by (simp add: references_wellformed_def PayrollItemModel_findByPayrollId_def list_all_iff)

lemma processBulkPayroll_posts:
  "batch_posts (calls (snd (snd (processBulkPayroll net clock now pid (s, g))))) = batch_posts (calls g) \<or>
   (\<exists>req. batch_posts (calls (snd (snd (processBulkPayroll net clock now pid (s, g)))))
            = batch_posts (calls g) @ [req] \<and>
          list_all2 (\<lambda>i d. reference_d d = payment_reference pid (id_i i) \<and> amount_d d = amount i)
            (payable (PayrollItemModel_findByPayrollId pid s)) (transactionList req))"
proof -
  let ?items = "PayrollItemModel_findByPayrollId pid s"
  let ?s1 = "PayrollModel_updateStatus now pid PROCESSING None None s"
  obtain err s2 ts where b: "build_transfers now pid (payable ?items) ?s1 [] = (err, s2, ts)"
    by (cases "build_transfers now pid (payable ?items) ?s1 []")
  show ?thesis
  proof (cases "payable ?items = [] \<or> err \<noteq> None")
    case True
    with b show ?thesis
      by (auto simp: processBulkPayroll_def Let_def split: option.splits)
  next
    case False
    with b have b': "build_transfers now pid (payable ?items) ?s1 [] = (None, s2, ts)" by simp
    from build_transfers_result [OF b'] have
      l: "list_all2 (\<lambda>i t. \<exists>e. EmployeeModel_findById (employee_id i) ?s1 = Some e \<and> t = transfer_of pid i e)
            (payable ?items) ts"
      by simp
    have rel: "list_all2 (\<lambda>i d. reference_d d = payment_reference pid (id_i i) \<and> amount_d d = amount i)
                 (payable ?items) (transactionList (request_body clock c ts))" for c
      using l by (auto simp: request_body_def list_all2_map2 transfer_of_def elim!: list_all2_mono)
    have g': "snd (snd (processBulkPayroll net clock now pid (s, g))) = snd (initiateBulkTransfer net clock ts g)"
      using False b'
      by (auto simp: processBulkPayroll_def Let_def split: option.splits prod.splits sum.splits)
    from initiateBulkTransfer_posts [of net clock ts g] rel show ?thesis
      unfolding g' by auto
  qed
qed


lemma references_wellformed_kept:
  assumes "st \<noteq> PENDING" "references_wellformed (payroll_items s)"
  shows "references_wellformed (payroll_items (PayrollItemModel_updateStatus now i st tr em s))"
  using assms
  by (cases tr) (auto simp: references_wellformed_def list_all_iff split: if_splits)

lemma joined_employee_found:
  "joins_employee s it \<Longrightarrow> EmployeeModel_findById (employee_id it) s \<noteq> None"
  by (auto simp: joins_employee_def EmployeeModel_findById_def find_None_iff)

lemma initiateBulkTransfer_sends:
  assumes "ts \<noteq> []" "\<not> (token_stale clock g \<and> login_fails net)" "contractCode (client g) \<noteq> []"
    and "validate_transfers ts = None"
  shows "batch_posts (calls (snd (initiateBulkTransfer net clock ts g))) \<noteq> batch_posts (calls g)"
proof -
  obtain r g1 where ea: "ensureAuthenticated net clock g = (r, g1)"
    by (cases "ensureAuthenticated net clock g")
  obtain r2 g2 where ea2: "ensureAuthenticated net clock g1 = (r2, g2)"
    by (cases "ensureAuthenticated net clock g1")
  note c = ensureAuthenticated_cases [OF ea] ensureAuthenticated_cases [OF ea2]
  have r: "r = None" using c(1) assms(2) by auto
  have "\<not> (token_stale clock g1 \<and> login_fails net)"
    using ea assms(2) by (auto simp: ensureAuthenticated_def split: if_splits)
  then have r2: "r2 = None" using c(2) by auto
  show ?thesis
    using assms ea ea2 r r2 c
    by (auto simp: initiateBulkTransfer_def client_post_def split: outcome.splits)
qed

lemma validate_built_transfers:
  assumes "list_all2 (\<lambda>i t. \<exists>e. EmployeeModel_findById (employee_id i) s = Some e \<and> t = transfer_of pid i e)
             items ts"
    and "list_all (transfer_valid s) items"
  shows "validate_transfers ts = None"
  using assms
  by (induction items ts rule: list_all2_induct)
     (auto simp: transfer_valid_def transfer_of_def)

text \<open>
  C4. With stored references as every writer leaves them (never the empty string,
  none on a PENDING item): an invocation of \<open>processBulkPayroll\<close> sends at most one batch
  request, and the request it sends lists, in order, exactly the items loaded for the
  batch whose status is PENDING, or PROCESSING with a null reference, each under its
  reference \<open>PAYROLL_<batch>_<item>\<close> with its amount; no item that holds a reference is
  among them. The request is sent whenever there is such an item, authentication does
  not fail, the contract code is configured and every such item's transfer passes
  validation.
\<close>

theorem processBulkPayroll_submits_eligible:
  assumes wf: "references_wellformed (payroll_items s)"
  shows "list_all (\<lambda>i. transaction_reference i \<noteq> None \<longrightarrow> \<not> eligible i)
           (PayrollItemModel_findByPayrollId pid s) \<and>
         (batch_posts (calls (snd (snd (processBulkPayroll net clock now pid (s, g))))) = batch_posts (calls g) \<or>
          (\<exists>req. batch_posts (calls (snd (snd (processBulkPayroll net clock now pid (s, g)))))
                   = batch_posts (calls g) @ [req] \<and>
                 list_all2 (\<lambda>i d. reference_d d = payment_reference pid (id_i i) \<and> amount_d d = amount i)
                   (filter eligible (PayrollItemModel_findByPayrollId pid s)) (transactionList req))) \<and>
         (filter eligible (PayrollItemModel_findByPayrollId pid s) \<noteq> [] \<and>
          \<not> (token_stale clock g \<and> login_fails net) \<and> contractCode (client g) \<noteq> [] \<and>
          list_all (transfer_valid s) (filter eligible (PayrollItemModel_findByPayrollId pid s))
          \<longrightarrow> batch_posts (calls (snd (snd (processBulkPayroll net clock now pid (s, g)))))
                \<noteq> batch_posts (calls g))"
proof -
  let ?items = "PayrollItemModel_findByPayrollId pid s"
  let ?s1 = "PayrollModel_updateStatus now pid PROCESSING None None s"
  have wfi: "references_wellformed ?items"
    by (rule wellformed_findByPayrollId [OF wf])
  have pe: "payable ?items = filter eligible ?items"
    by (rule payable_is_eligible [OF wfi])
  have A: "list_all (\<lambda>i. transaction_reference i \<noteq> None \<longrightarrow> \<not> eligible i) ?items"
    using wfi by (auto simp: references_wellformed_def list_all_iff eligible_def)
  have B: "batch_posts (calls (snd (snd (processBulkPayroll net clock now pid (s, g))))) = batch_posts (calls g) \<or>
          (\<exists>req. batch_posts (calls (snd (snd (processBulkPayroll net clock now pid (s, g)))))
                   = batch_posts (calls g) @ [req] \<and>
                 list_all2 (\<lambda>i d. reference_d d = payment_reference pid (id_i i) \<and> amount_d d = amount i)
                   (filter eligible ?items) (transactionList req))"
    using processBulkPayroll_posts [of net clock now pid s g] unfolding pe .
  have C: "batch_posts (calls (snd (snd (processBulkPayroll net clock now pid (s, g))))) \<noteq> batch_posts (calls g)"
    if ne: "filter eligible ?items \<noteq> []"
      and auth: "\<not> (token_stale clock g \<and> login_fails net)"
      and cc: "contractCode (client g) \<noteq> []"
      and valid: "list_all (transfer_valid s) (filter eligible ?items)"
  proof -
    have fr: "\<And>i. EmployeeModel_findById (employee_id i) ?s1 = EmployeeModel_findById (employee_id i) s"
      by (rule EmployeeModel_findById_frame) simp
    have "\<forall>i \<in> set (payable ?items). EmployeeModel_findById (employee_id i) ?s1 \<noteq> None"
      unfolding fr pe using joined_employee_found [of s]
      by (auto simp: PayrollItemModel_findByPayrollId_def)
    from build_transfers_succeeds [OF this, of now pid "[]"]
    obtain s2 ts where b: "build_transfers now pid (payable ?items) ?s1 [] = (None, s2, ts)"
      by (cases "build_transfers now pid (payable ?items) ?s1 []") auto
    from build_transfers_result [OF b] have
      l: "list_all2 (\<lambda>i t. \<exists>e. EmployeeModel_findById (employee_id i) s = Some e \<and> t = transfer_of pid i e)
            (filter eligible ?items) ts"
      unfolding fr pe by simp
    from l ne have tsne: "ts \<noteq> []" by auto
    have v: "validate_transfers ts = None"
      by (rule validate_built_transfers [OF l valid])
    have g': "snd (snd (processBulkPayroll net clock now pid (s, g))) = snd (initiateBulkTransfer net clock ts g)"
      using ne b unfolding pe [symmetric]
      by (auto simp: processBulkPayroll_def Let_def split: option.splits prod.splits sum.splits)
    show ?thesis
      unfolding g' by (rule initiateBulkTransfer_sends [OF tsne auth cc v])
  qed
  from A B C show ?thesis by blast
qed

lemmas processor_defs = processBulkPayroll_def payable_def transfer_of_def payment_reference_def
  string_of_int_def string_of_nat.simps validate_transfers.simps
  EmployeeModel_findById_def PayrollItemModel_findByPayrollId_def joins_employee_def
  PayrollItemModel_updateStatus_def PayrollModel_updateStatus_def
  updatePayrollStats_processor_def count_status_def item_set_def payroll_set_def Let_def

lemma ex_processing:
  "processBulkPayroll ex_network 1000 50 27 (ex_sweep_store, ex_client)
     = (None,
        \<lparr> payrolls = [(ex_payroll 27 PROCESSING)\<lparr> updated_at_p := 50 \<rparr>],
          payroll_items = [ex_item 51 27 PROCESSING (Some ''MFDS51''),
                           ex_item 52 27 PROCESSING (Some ''MFDS52''),
                           (ex_item 53 27 PROCESSING (Some ''MFDS-PAYROLL_27_53''))\<lparr> updated_at_i := 50 \<rparr>],
          employees = [ex_employee] \<rparr>,
        \<lparr> client = \<lparr> contractCode = ''7000000001'', accessToken = Some ''token-1'',
                     tokenExpiry = 82801000 \<rparr>,
          calls = [AuthLogin,
                   BatchPost \<lparr> title = ''Bulk Payroll Transfers'', batchReference = ''BATCH_1000'',
                               narration_b = ''Payroll batch disbursement'',
                               sourceAccountNumber = ''7000000001'', onValidationFailure = ''CONTINUE'',
                               notificationInterval = 50,
                               transactionList =
                                 [\<lparr> amount_d = Num 100, reference_d = ''PAYROLL_27_53'',
                                     narration_d = ''Payroll payment'', destinationBankCode = ''058'',
                                     destinationAccountNumber = ''0123456789'', currency = ''NGN'' \<rparr>] \<rparr>] \<rparr>)"
  by (simp add: ex_defs processor_defs client_defs)

text \<open>
  Items 51 and 52 are PROCESSING with a reference, item 53 is PENDING: the request
  lists item 53 alone.
\<close>

theorem processBulkPayroll_submits_eligible_witness:
  "references_wellformed (payroll_items ex_sweep_store) \<and>
   map (\<lambda>i. (id_i i, status_i i, transaction_reference i)) (PayrollItemModel_findByPayrollId 27 ex_sweep_store)
     = [(51, PROCESSING, Some ''MFDS51''), (52, PROCESSING, Some ''MFDS52''), (53, PENDING, None)] \<and>
   map id_i (filter eligible (PayrollItemModel_findByPayrollId 27 ex_sweep_store)) = [53] \<and>
   list_all (\<lambda>i. transaction_reference i \<noteq> None \<longrightarrow> \<not> eligible i)
     (PayrollItemModel_findByPayrollId 27 ex_sweep_store) \<and>
   batch_posts (calls (snd (snd (processBulkPayroll ex_network 1000 50 27 (ex_sweep_store, ex_client)))))
     \<noteq> batch_posts (calls ex_client) \<and>
   map (\<lambda>req. map reference_d (transactionList req))
     (batch_posts (calls (snd (snd (processBulkPayroll ex_network 1000 50 27 (ex_sweep_store, ex_client))))))
     = [[''PAYROLL_27_53'']]"
proof -
  have wf: "references_wellformed (payroll_items ex_sweep_store)"
    by (simp add: ex_defs references_wellformed_def)
  have items: "map (\<lambda>i. (id_i i, status_i i, transaction_reference i))
                 (PayrollItemModel_findByPayrollId 27 ex_sweep_store)
     = [(51, PROCESSING, Some ''MFDS51''), (52, PROCESSING, Some ''MFDS52''), (53, PENDING, None)]"
    by (simp add: ex_defs PayrollItemModel_findByPayrollId_def joins_employee_def)
  have el: "filter eligible (PayrollItemModel_findByPayrollId 27 ex_sweep_store) = [ex_item 53 27 PENDING None]"
    by (simp add: ex_defs PayrollItemModel_findByPayrollId_def joins_employee_def eligible_def)
  have ok: "filter eligible (PayrollItemModel_findByPayrollId 27 ex_sweep_store) \<noteq> [] \<and>
          \<not> (token_stale 1000 ex_client \<and> login_fails ex_network) \<and> contractCode (client ex_client) \<noteq> [] \<and>
          list_all (transfer_valid ex_sweep_store) (filter eligible (PayrollItemModel_findByPayrollId 27 ex_sweep_store))"
    unfolding el
    by (simp add: ex_defs login_fails_def transfer_valid_def invalid_amount_def EmployeeModel_findById_def)
  note t = processBulkPayroll_submits_eligible [OF wf, of 27 ex_network 1000 50 ex_client]
  from t have a: "list_all (\<lambda>i. transaction_reference i \<noteq> None \<longrightarrow> \<not> eligible i)
     (PayrollItemModel_findByPayrollId 27 ex_sweep_store)" by blast
  from t ok have sent: "batch_posts (calls (snd (snd (processBulkPayroll ex_network 1000 50 27 (ex_sweep_store, ex_client)))))
     \<noteq> batch_posts (calls ex_client)" by blast
  have refs: "map (\<lambda>req. map reference_d (transactionList req))
     (batch_posts (calls (snd (snd (processBulkPayroll ex_network 1000 50 27 (ex_sweep_store, ex_client))))))
     = [[''PAYROLL_27_53'']]"
    by (simp add: ex_processing)
  from wf items el a sent refs show ?thesis by (simp add: ex_item_def)
qed

section \<open>No writer clears a reference\<close>

lemma keeps_references_refl [simp]: "keeps_references s s"
  by (simp add: keeps_references_def list_all2_same)

lemma keeps_references_items:
  "payroll_items t = payroll_items s \<Longrightarrow> keeps_references s t"
  by (simp add: keeps_references_def list_all2_same)

lemma keeps_references_trans:
  assumes "keeps_references s t" "keeps_references t u"
  shows "keeps_references s u"
proof -
  have "list_all2 (\<lambda>it it'. transaction_reference it \<noteq> None \<longrightarrow> transaction_reference it' \<noteq> None)
          (payroll_items s) (payroll_items u)"
    by (rule list_all2_trans [OF _ assms(1) [unfolded keeps_references_def]
                                  assms(2) [unfolded keeps_references_def]]) simp
  then show ?thesis by (simp add: keeps_references_def)
qed

lemma keeps_references_cong:
  "payroll_items t' = payroll_items t \<Longrightarrow> keeps_references s t \<Longrightarrow> keeps_references s t'"
  by (simp add: keeps_references_def)

lemma keeps_references_update:
  "keeps_references s (PayrollItemModel_updateStatus now i st tr em s)"
  unfolding keeps_references_def
  by (cases tr) (simp_all add: list_all2_map_self)

lemma keeps_references_webhook:
  "keeps_references s (snd (webhook toNumber now req s))"
proof -
  from webhook_items [of toNumber now req s] consider
    (same) "payroll_items (snd (webhook toNumber now req s)) = payroll_items s"
  | (upd) ed iid where
      "payroll_items (snd (webhook toNumber now req s)) = payroll_items (webhook_write now req ed iid s)"
    by blast
  then show ?thesis
  proof cases
    case same
    then show ?thesis by (rule keeps_references_items)
  next
    case upd
    have "keeps_references s (webhook_write now req ed iid s)"
      using webhook_write_cases [of now req ed iid s] keeps_references_update [of s now iid]
      by (elim disjE) simp_all
    with upd show ?thesis by (rule keeps_references_cong)
  qed
qed

lemma keeps_references_reconcile_item:
  "keeps_references (store w) (store (reconcile_item gw now x w))"
  using keeps_references_update [of "store w" now "id_i x"]
  by (simp add: reconcile_item_def Let_def split: decision.splits)

lemma keeps_references_fold:
  "keeps_references (store w) (store (fold (reconcile_item gw now) xs w))"
proof (induction xs arbitrary: w)
  case Nil
  then show ?case by simp
next
  case (Cons x xs)
  from keeps_references_trans [OF keeps_references_reconcile_item Cons.IH]
  show ?case by simp
qed

lemma keeps_references_reconcile:
  "keeps_references s (fst (snd (reconcilePayroll rc gw now idn s)))"
proof -
  have swept: "keeps_references s (store (fold (reconcile_item gw now) (itemsToReconcile pid s)
                   \<lparr> store = s, updated = 0, errors_n = 0, lookups = [] \<rparr>))" for pid
    using keeps_references_fold [of "\<lparr> store = s, updated = 0, errors_n = 0, lookups = [] \<rparr>" gw now
            "itemsToReconcile pid s"]
    by simp
  have "keeps_references s (updatePayrollStats_controller now pid
          (store (fold (reconcile_item gw now) (itemsToReconcile pid s)
                   \<lparr> store = s, updated = 0, errors_n = 0, lookups = [] \<rparr>)))" for pid
    using swept [of pid] by (rule keeps_references_cong [rotated]) simp
  with swept show ?thesis
    by (simp add: reconcilePayroll_def Let_def split: option.splits receiver.splits)
qed

lemma keeps_references_build:
  "keeps_references s (fst (snd (build_transfers now pid items s acc)))"
proof (induction items arbitrary: s acc)
  case Nil
  then show ?case by simp
next
  case (Cons item rest)
  show ?case
  proof (cases "EmployeeModel_findById (employee_id item) s")
    case None
    then show ?thesis by simp
  next
    case (Some e)
    from keeps_references_trans [OF keeps_references_update Cons.IH] Some
    show ?thesis by simp
  qed
qed

lemma keeps_references_backfill:
  "keeps_references s (backfill now pid results items s)"
proof (induction items arbitrary: s)
  case Nil
  then show ?case by simp
next
  case (Cons item rest)
  from keeps_references_trans [OF keeps_references_update Cons.IH] Cons.IH
  show ?case by (simp split: option.splits)
qed

lemma keeps_references_process:
  "keeps_references s (fst (snd (processBulkPayroll net clock now pid (s, g))))"
proof -
  let ?s1 = "PayrollModel_updateStatus now pid PROCESSING None None s"
  let ?b = "build_transfers now pid (payable (PayrollItemModel_findByPayrollId pid s)) ?s1 []"
  have one: "keeps_references s ?s1"
    by (rule keeps_references_items) simp
  have two: "keeps_references s (fst (snd ?b))"
    by (rule keeps_references_trans [OF one keeps_references_build])
  have three: "keeps_references s (updatePayrollStats_processor now pid (backfill now pid results ps (fst (snd ?b))))"
    for results ps
    by (rule keeps_references_cong [OF _ keeps_references_trans [OF two keeps_references_backfill]]) simp
  show ?thesis
    using two three
    by (auto simp: processBulkPayroll_def Let_def split: option.splits prod.splits sum.splits)
qed

text \<open>
  C10. \<open>PayrollItemModel.updateStatus\<close> changes \<open>transaction_reference\<close> only when the
  reference argument is a non-empty string, and \<open>error_message\<close> only when the message
  argument is one: with the argument omitted or empty the stored value of every row
  stays. Hence no row that holds a reference loses it, in \<open>updateStatus\<close> itself, in a
  webhook delivery, in a reconciliation sweep (whatever the value of \<open>this\<close> it runs
  with) or in a batch-processing invocation;
  and a webhook delivery whose event has no description or an empty one leaves
  every \<open>error_message\<close> as it was, also on the item it marks FAILED.
\<close>

theorem sparse_item_update:
  "list_all2 (\<lambda>it it'. (\<not> truthy txRef \<longrightarrow> transaction_reference it' = transaction_reference it) \<and>
                         (\<not> truthy errMsg \<longrightarrow> error_message it' = error_message it))
     (payroll_items s) (payroll_items (PayrollItemModel_updateStatus now i st txRef errMsg s)) \<and>
   keeps_references s (PayrollItemModel_updateStatus now i st txRef errMsg s) \<and>
   keeps_references s (snd (webhook toNumber now req s)) \<and>
   keeps_references s (fst (snd (reconcilePayroll rc gw now idn s))) \<and>
   keeps_references s (fst (snd (processBulkPayroll net clock now pid (s, g)))) \<and>
   (webhook_parse toNumber req = Target ed p iid \<and> \<not> truthy (transactionDescription ed) \<longrightarrow>
      list_all2 (\<lambda>it it'. error_message it' = error_message it)
        (payroll_items s) (payroll_items (snd (webhook toNumber now req s))))"
proof -
  have "list_all2 (\<lambda>it it'. (\<not> truthy txRef \<longrightarrow> transaction_reference it' = transaction_reference it) \<and>
                         (\<not> truthy errMsg \<longrightarrow> error_message it' = error_message it))
     (payroll_items s) (payroll_items (PayrollItemModel_updateStatus now i st txRef errMsg s))"
    using updateStatus_sparse [of txRef errMsg s now i st] by (rule list_all2_mono) simp
  moreover have "list_all2 (\<lambda>it it'. error_message it' = error_message it)
        (payroll_items s) (payroll_items (snd (webhook toNumber now req s)))"
    if "webhook_parse toNumber req = Target ed p iid" "\<not> truthy (transactionDescription ed)"
    using that by (rule webhook_empty_description)
  ultimately show ?thesis
    using keeps_references_update [of s now i st txRef errMsg]
      keeps_references_webhook [of s toNumber now req]
      keeps_references_reconcile [of s rc gw now idn]
      keeps_references_process [of s net clock now pid g]
    by (intro conjI impI) simp_all
qed

text \<open>
  A failure event with an empty description and no transaction reference: item 51
  becomes FAILED, keeps its reference, and its \<open>error_message\<close> stays null.
\<close>

theorem sparse_item_update_witness:
  "webhook_parse Number_js ex_failure_event
     = Target \<lparr> reference = Some ''PAYROLL_27_51'', transactionReference = None,
                transactionDescription = Some [], status_ev = Some ''FAILED'' \<rparr> (Num 27) 51 \<and>
   list_all2 (\<lambda>it it'. error_message it' = error_message it)
     (payroll_items ex_store) (payroll_items (snd (webhook Number_js 100 ex_failure_event ex_store))) \<and>
   keeps_references ex_store (snd (webhook Number_js 100 ex_failure_event ex_store)) \<and>
   map (\<lambda>it. (status_i it, transaction_reference it, error_message it))
     (payroll_items (snd (webhook Number_js 100 ex_failure_event ex_store)))
     = [(FAILED, Some ''MFDS51'', None), (PROCESSING, Some ''MFDS60'', None)]"
proof -
  have p: "webhook_parse Number_js ex_failure_event
     = Target \<lparr> reference = Some ''PAYROLL_27_51'', transactionReference = None,
                transactionDescription = Some [], status_ev = Some ''FAILED'' \<rparr> (Num 27) 51"
    by (simp add: ex_defs webhook_defs)
  have e: "map (\<lambda>it. (status_i it, transaction_reference it, error_message it))
     (payroll_items (snd (webhook Number_js 100 ex_failure_event ex_store)))
     = [(FAILED, Some ''MFDS51'', None), (PROCESSING, Some ''MFDS60'', None)]"
    by (simp add: ex_defs webhook_defs)
  from sparse_item_update [where toNumber = Number_js and req = ex_failure_event and s = ex_store
        and now = 100 and p = "Num 27" and iid = 51
        and ed = "\<lparr> reference = Some ''PAYROLL_27_51'', transactionReference = None,
                     transactionDescription = Some [], status_ev = Some ''FAILED'' \<rparr>"] p e
  show ?thesis by simp
qed

end
